theory Spec2Isabelle
  imports Main
begin

section \<open>JavaScript strings and numbers\<close>

text \<open>
  The hooks of \<^verbatim>\<open>Case.model.js\<close> and \<^verbatim>\<open>Billing.model.js\<close> build identifiers with
  \<^verbatim>\<open>String(n)\<close>, template literals, \<^verbatim>\<open>padStart\<close>, \<^verbatim>\<open>slice\<close> and a \<^verbatim>\<open>RegExp\<close>. Integral
  Numbers are modelled by \<open>int\<close>: a document count and a calendar year stay far below
  \<open>2^53\<close>, where Number arithmetic is exact and \<^verbatim>\<open>toString\<close> prints plain decimal digits.
\<close>

definition digit_char :: "nat \<Rightarrow> char" where
  "digit_char d = ''0123456789'' ! d"

fun digits_of :: "nat \<Rightarrow> string" where
  "digits_of n =
     (if n < 10 then [digit_char n] else digits_of (n div 10) @ [digit_char (n mod 10)])"

declare digits_of.simps [simp del]

definition Number_toString :: "int \<Rightarrow> string" where
  \<comment> \<open>\<^verbatim>\<open>String(n)\<close>, \<^verbatim>\<open>n.toString()\<close> and \<^verbatim>\<open>`${n}`\<close> of an integral Number.\<close>
  "Number_toString n = (if n < 0 then CHR ''-'' # digits_of (nat (- n)) else digits_of (nat n))"

definition padStart :: "nat \<Rightarrow> string \<Rightarrow> string \<Rightarrow> string" where
  \<comment> \<open>\<^verbatim>\<open>s.padStart(targetLength, padString)\<close>: the pad string is repeated and cut.\<close>
  "padStart targetLength padString s =
     (if targetLength \<le> length s \<or> padString = [] then s
      else take (targetLength - length s)
             (concat (replicate (targetLength - length s) padString)) @ s)"

definition slice :: "int \<Rightarrow> string \<Rightarrow> string" where
  \<comment> \<open>\<^verbatim>\<open>s.slice(start)\<close>: a negative start counts from the end, clamped at 0.\<close>
  "slice start s =
     (if start < 0 then drop (nat (max (int (length s) + start) 0)) s
      else drop (nat start) s)"

fun matches_here :: "string \<Rightarrow> string \<Rightarrow> bool" where
  "matches_here [] s = True"
| "matches_here (c # cs) [] = False"
| "matches_here (c # cs) (d # ds) = (c = d \<and> matches_here cs ds)"

fun matches_somewhere :: "string \<Rightarrow> string \<Rightarrow> bool" where
  "matches_somewhere lits [] = matches_here lits []"
| "matches_somewhere lits (d # ds) = (matches_here lits (d # ds) \<or> matches_somewhere lits ds)"

definition regexp_special :: "char \<Rightarrow> bool" where
  \<comment> \<open>The syntax characters of a JavaScript pattern; \<open>CHR 0x5C\<close> is the backslash.\<close>
  "regexp_special c = (c \<in> set (CHR 0x5C # ''^$.*+?()[]{}|/''))"

definition RegExp_test :: "string \<Rightarrow> string \<Rightarrow> bool" where
  \<comment> \<open>\<^verbatim>\<open>new RegExp(pattern).test(s)\<close> for a pattern of literal characters with an
      optional leading \<^verbatim>\<open>^\<close>. The patterns of the hooks are of this shape: see
      \<open>CASE_pattern_literal\<close> and \<open>INV_pattern_literal\<close>.\<close>
  "RegExp_test pattern s =
     (case pattern of
        c # lits \<Rightarrow> if c = CHR ''^'' then matches_here lits s else matches_somewhere pattern s
      | [] \<Rightarrow> True)"

definition truthy :: "string option \<Rightarrow> bool" where
  \<comment> \<open>A String field: \<^verbatim>\<open>undefined\<close>, \<^verbatim>\<open>null\<close> and \<^verbatim>\<open>''\<close> are falsy.\<close>
  "truthy v = (case v of None \<Rightarrow> False | Some s \<Rightarrow> s \<noteq> [])"

text \<open>
  The number a string of decimal digits denotes. The hooks never parse a number; the
  function states that \<open>digits_of\<close> prints decimal and loses nothing.
\<close>

definition digit_value :: "char \<Rightarrow> nat" where
  "digit_value c = of_char c - 48"

definition decimal_value :: "string \<Rightarrow> nat" where
  "decimal_value s = foldl (\<lambda>acc c. 10 * acc + digit_value c) 0 s"

section \<open>Documents, the run environment and the collection\<close>

text \<open>
  A Mongoose document knows whether it has been persisted (\<^verbatim>\<open>isNew\<close>). Only the fields
  the hooks read or write are kept. A String path that is \<^verbatim>\<open>undefined\<close> is \<open>None\<close>.
\<close>

record document =
  isNew :: bool

record case_doc = document +
  caseNumber :: "string option"

text \<open>
  The Number of \<^verbatim>\<open>quantity\<close>, \<^verbatim>\<open>rate\<close>, \<^verbatim>\<open>amount\<close> and \<^verbatim>\<open>totalAmount\<close> is a type
  parameter \<open>'n\<close> with the operations the hooks use. \<^verbatim>\<open>isModified(path)\<close> is the
  document's own change tracking, read as a function of the path.
\<close>

record 'n invoiceItem =
  quantity :: 'n
  rate :: 'n
  amount :: 'n
  item_isModified :: "string \<Rightarrow> bool"

record 'n invoice = document +
  invoiceNumber :: "string option"
  totalAmount :: "'n option"
  items :: "'n invoiceItem list"
  isModified :: "string \<Rightarrow> bool"

datatype error = QueryFailure | WriteFailure | DuplicateKey | ValidationError

text \<open>
  What one run of a hook observes from outside: the two readings of
  \<^verbatim>\<open>new Date().getFullYear()\<close> (in the \<^verbatim>\<open>try\<close> and in the \<^verbatim>\<open>catch\<close> block), the reading
  of \<^verbatim>\<open>Date.now()\<close>, and whether the store rejects the count query or the write.
\<close>

record env =
  year_in_try :: int
  year_in_catch :: int
  Date_now :: int
  query_throws :: bool
  write_throws :: bool

text \<open>
  What a run leaves behind: the document, the argument handed to \<^verbatim>\<open>next\<close> (\<open>None\<close> for
  \<^verbatim>\<open>next()\<close>), and the patterns of the count queries it issued.
\<close>

record 'd hook_run =
  doc :: 'd
  next_arg :: "error option"
  queries :: "string list"

definition countDocuments ::
  "env \<Rightarrow> ('d \<Rightarrow> string option) \<Rightarrow> 'd list \<Rightarrow> string \<Rightarrow> error + nat" where
  \<comment> \<open>\<^verbatim>\<open>Model.countDocuments({ path: new RegExp(pattern) })\<close>: a missing path never matches.\<close>
  "countDocuments e path collection pattern =
     (if query_throws e then Inl QueryFailure
      else Inr (length (filter
                  (\<lambda>d. case path d of None \<Rightarrow> False | Some s \<Rightarrow> RegExp_test pattern s)
                  collection)))"

definition insertOne ::
  "env \<Rightarrow> ('d \<Rightarrow> string option) \<Rightarrow> 'd list \<Rightarrow> 'd \<Rightarrow> error + 'd list" where
  \<comment> \<open>The write of a new document under the \<^verbatim>\<open>unique: true\<close> index of \<open>path\<close>.\<close>
  "insertOne e path collection d =
     (if write_throws e then Inl WriteFailure
      else if path d \<in> set (map path collection) then Inl DuplicateKey
      else Inr (collection @ [d]))"

section \<open>The pre-save hooks\<close>

text \<open>\<^verbatim>\<open>caseSchema.pre('save', ...)\<close>, Case.model.js lines 133-151.\<close>

definition caseSchema_pre_save :: "env \<Rightarrow> case_doc list \<Rightarrow> case_doc \<Rightarrow> case_doc hook_run" where
  "caseSchema_pre_save e CaseModel this =
     (if isNew this \<and> \<not> truthy (caseNumber this) then
        (let year = year_in_try e;
             pattern = ''^CASE-'' @ Number_toString year @ ''-''
         in case countDocuments e caseNumber CaseModel pattern of
              Inr count \<Rightarrow>
                \<lparr>doc = this\<lparr>caseNumber := Some (''CASE-'' @ Number_toString year @ ''-'' @
                         padStart 4 ''0'' (Number_toString (int count + 1)))\<rparr>,
                 next_arg = None, queries = [pattern]\<rparr>
            | Inl error \<Rightarrow>
                (let year = year_in_catch e;
                     timestamp = slice (- 4) (Number_toString (Date_now e))
                 in \<lparr>doc = this\<lparr>caseNumber := Some (''CASE-'' @ Number_toString year @ ''-'' @
                            timestamp)\<rparr>,
                     next_arg = None, queries = [pattern]\<rparr>))
      else \<lparr>doc = this, next_arg = None, queries = []\<rparr>)"

text \<open>\<^verbatim>\<open>invoiceItemSchema.pre('save', ...)\<close>, Billing.model.js lines 84-89.\<close>

definition invoiceItemSchema_pre_save :: "'n::times invoiceItem \<Rightarrow> 'n invoiceItem" where
  "invoiceItemSchema_pre_save this =
     (if item_isModified this ''quantity'' \<or> item_isModified this ''rate''
      then this\<lparr>amount := quantity this * rate this\<rparr>
      else this)"

text \<open>
  \<^verbatim>\<open>invoiceSchema.pre('save', ...)\<close>, the total, Billing.model.js lines 137-142.
  \<^verbatim>\<open>reduce\<close> with an initial value is a left fold.
\<close>

definition invoiceSchema_pre_save_totalAmount :: "'n::{plus,zero} invoice \<Rightarrow> 'n invoice" where
  "invoiceSchema_pre_save_totalAmount this =
     (if isModified this ''items''
      then this\<lparr>totalAmount := Some (foldl (\<lambda>sum item. sum + amount item) 0 (items this))\<rparr>
      else this)"

text \<open>\<^verbatim>\<open>invoiceSchema.pre('save', ...)\<close>, the number, Billing.model.js lines 145-161.\<close>

definition invoiceSchema_pre_save_invoiceNumber ::
  "env \<Rightarrow> 'n invoice list \<Rightarrow> 'n invoice \<Rightarrow> 'n invoice hook_run" where
  "invoiceSchema_pre_save_invoiceNumber e InvoiceModel this =
     (if \<not> truthy (invoiceNumber this) then
        (let year = year_in_try e;
             pattern = ''^INV-'' @ Number_toString year @ ''-''
         in case countDocuments e invoiceNumber InvoiceModel pattern of
              Inr count \<Rightarrow>
                \<lparr>doc = this\<lparr>invoiceNumber := Some (''INV-'' @ Number_toString year @ ''-'' @
                         padStart 4 ''0'' (Number_toString (int count + 1)))\<rparr>,
                 next_arg = None, queries = [pattern]\<rparr>
            | Inl error \<Rightarrow>
                (let year = year_in_catch e
                 in \<lparr>doc = this\<lparr>invoiceNumber := Some (''INV-'' @ Number_toString year @ ''-0001'')\<rparr>,
                     next_arg = None, queries = [pattern]\<rparr>))
      else \<lparr>doc = this, next_arg = None, queries = []\<rparr>)"

text \<open>
  The hooks of one \<^verbatim>\<open>invoice.save()\<close> in the order Mongoose runs them: the pre-save
  hooks of the subdocuments in \<^verbatim>\<open>items\<close>, then the hooks of the invoice in the order of
  their registration.
\<close>

definition Invoice_pre_save ::
  "env \<Rightarrow> 'n invoice list \<Rightarrow> 'n::{plus,zero,times} invoice \<Rightarrow> 'n invoice hook_run" where
  "Invoice_pre_save e InvoiceModel this =
     invoiceSchema_pre_save_invoiceNumber e InvoiceModel
       (invoiceSchema_pre_save_totalAmount
          (this\<lparr>items := map invoiceItemSchema_pre_save (items this)\<rparr>))"

section \<open>Saving and creating documents\<close>

text \<open>
  \<^verbatim>\<open>save()\<close> validates the document first, then runs the pre-save hooks, then writes.
  Of the validators the schemas declare, \<^verbatim>\<open>required: true\<close> of \<^verbatim>\<open>invoiceNumber\<close> and of
  \<^verbatim>\<open>totalAmount\<close> (Billing.model.js lines 97-101 and 111-115) are modelled: a required
  String must be a non-empty string, a required Number must be present. \<^verbatim>\<open>caseNumber\<close> is
  \<^verbatim>\<open>required: false\<close> (Case.model.js lines 54-58) and has no validator. The remaining
  validators (\<^verbatim>\<open>min\<close>, \<^verbatim>\<open>enum\<close>, and \<^verbatim>\<open>required\<close> of the paths left out of the records) are
  taken to pass.
\<close>

definition Invoice_validate :: "'n invoice \<Rightarrow> error option" where
  "Invoice_validate this =
     (if truthy (invoiceNumber this) \<and> totalAmount this \<noteq> None then None
      else Some ValidationError)"

text \<open>
  \<^verbatim>\<open>invoice.save()\<close> up to the write: the validation, then the hooks. The result is the
  document handed to the write, or the error that ends the save before it.
\<close>

definition Invoice_save ::
  "env \<Rightarrow> 'n invoice list \<Rightarrow> 'n::{plus,zero,times} invoice \<Rightarrow> error + 'n invoice" where
  "Invoice_save e InvoiceModel this =
     (case Invoice_validate this of
        Some err \<Rightarrow> Inl err
      | None \<Rightarrow>
          (let r = Invoice_pre_save e InvoiceModel this
           in case next_arg r of
                Some err \<Rightarrow> Inl err
              | None \<Rightarrow> Inr (doc r)))"

text \<open>
  \<^verbatim>\<open>await new Case({...}).save()\<close> and \<^verbatim>\<open>await new Invoice({...}).save()\<close> of the routes:
  the constructor marks the document new, the save runs up to the write, and the document
  is written. The write is refused when the store is out of reach or the \<^verbatim>\<open>unique: true\<close>
  index of the identifier holds the value already.
\<close>

definition Case_create ::
  "env \<Rightarrow> case_doc list \<Rightarrow> case_doc \<Rightarrow> error + (case_doc list \<times> case_doc)" where
  "Case_create e CaseModel given =
     (let r = caseSchema_pre_save e CaseModel (given\<lparr>isNew := True\<rparr>)
      in case next_arg r of
           Some err \<Rightarrow> Inl err
         | None \<Rightarrow>
             (case insertOne e caseNumber CaseModel ((doc r)\<lparr>isNew := False\<rparr>) of
                Inl err \<Rightarrow> Inl err
              | Inr CaseModel' \<Rightarrow> Inr (CaseModel', (doc r)\<lparr>isNew := False\<rparr>)))"

definition Invoice_create ::
  "env \<Rightarrow> 'n invoice list \<Rightarrow> 'n::{plus,zero,times} invoice
     \<Rightarrow> error + ('n invoice list \<times> 'n invoice)" where
  "Invoice_create e InvoiceModel given =
     (case Invoice_save e InvoiceModel (given\<lparr>isNew := True\<rparr>) of
        Inl err \<Rightarrow> Inl err
      | Inr d \<Rightarrow>
          (case insertOne e invoiceNumber InvoiceModel (d\<lparr>isNew := False\<rparr>) of
             Inl err \<Rightarrow> Inl err
           | Inr InvoiceModel' \<Rightarrow> Inr (InvoiceModel', d\<lparr>isNew := False\<rparr>)))"

text \<open>
  Creations one after the other, each written before the next begins; the run stops at
  the first failure. The result lists the identifiers in creation order.
\<close>

fun Case_create_all ::
  "case_doc list \<Rightarrow> (env \<times> case_doc) list \<Rightarrow> error + (case_doc list \<times> string option list)" where
  "Case_create_all CaseModel [] = Inr (CaseModel, [])"
| "Case_create_all CaseModel ((e, given) # rest) =
     (case Case_create e CaseModel given of
        Inl err \<Rightarrow> Inl err
      | Inr (CaseModel', d) \<Rightarrow>
          (case Case_create_all CaseModel' rest of
             Inl err \<Rightarrow> Inl err
           | Inr (CaseModel'', ids) \<Rightarrow> Inr (CaseModel'', caseNumber d # ids)))"

fun Invoice_create_all ::
  "'n invoice list \<Rightarrow> (env \<times> 'n::{plus,zero,times} invoice) list
     \<Rightarrow> error + ('n invoice list \<times> string option list)" where
  "Invoice_create_all InvoiceModel [] = Inr (InvoiceModel, [])"
| "Invoice_create_all InvoiceModel ((e, given) # rest) =
     (case Invoice_create e InvoiceModel given of
        Inl err \<Rightarrow> Inl err
      | Inr (InvoiceModel', d) \<Rightarrow>
          (case Invoice_create_all InvoiceModel' rest of
             Inl err \<Rightarrow> Inl err
           | Inr (InvoiceModel'', ids) \<Rightarrow> Inr (InvoiceModel'', invoiceNumber d # ids)))"

section \<open>An invariant of sequential creation\<close>

text \<open>
  The documents of the collection whose identifier begins with \<open>pre\<close> are \<open>k\<close> in number,
  and each carries \<open>pre\<close> followed by a zero-padded number up to \<open>k\<close>.
\<close>

definition numbered_up_to :: "('d \<Rightarrow> string option) \<Rightarrow> string \<Rightarrow> 'd list \<Rightarrow> nat \<Rightarrow> bool" where
  "numbered_up_to path pre collection k \<longleftrightarrow>
     length (filter (\<lambda>d. case path d of None \<Rightarrow> False | Some s \<Rightarrow> matches_here pre s)
               collection) = k \<and>
     (\<forall>d \<in> set collection. \<forall>s. path d = Some s \<longrightarrow> matches_here pre s \<longrightarrow>
        (\<exists>j. j \<le> k \<and> s = pre @ padStart 4 ''0'' (digits_of j)))"

section \<open>Facts about the string operations\<close>

lemma matches_here_append: "matches_here p (p @ t)"
  by (induction p) auto

lemma matches_here_iff: "matches_here p s \<longleftrightarrow> take (length p) s = p"
  by (induction p s rule: matches_here.induct) auto

lemma RegExp_test_anchored: "RegExp_test (CHR ''^'' # lits) s = matches_here lits s"
  by (simp add: RegExp_test_def)

lemma digit_cases: "d < 10 \<Longrightarrow> d \<in> {0, 1, 2, 3, 4, 5, 6, 7, 8, 9::nat}"
  by auto

lemma digit_value_digit_char: "d < 10 \<Longrightarrow> digit_value (digit_char d) = d"
  using digit_cases[of d] by (auto simp: digit_value_def digit_char_def)

lemma digit_char_is_digit: "d < 10 \<Longrightarrow> digit_char d \<in> set ''0123456789''"
  using digit_cases[of d] by (auto simp: digit_char_def)

lemma decimal_value_snoc: "decimal_value (s @ [c]) = 10 * decimal_value s + digit_value c"
  by (simp add: decimal_value_def)

lemma decimal_value_digits_of: "decimal_value (digits_of n) = n"
proof (induction n rule: digits_of.induct)
  case (1 n)
  show ?case
  proof (cases "n < 10")
    case True
    then show ?thesis
      by (simp add: digits_of.simps[of n] decimal_value_def digit_value_digit_char)
  next
    case False
    with 1 show ?thesis
      by (simp add: digits_of.simps[of n] decimal_value_snoc digit_value_digit_char)
  qed
qed

lemma digits_of_chars: "c \<in> set (digits_of n) \<Longrightarrow> c \<in> set ''0123456789''"
proof (induction n rule: digits_of.induct)
  case (1 n)
  show ?case
  proof (cases "n < 10")
    case True
    with 1 show ?thesis using digit_char_is_digit[of n]
      by (simp add: digits_of.simps[of n])
  next
    case False
    with 1 show ?thesis using digit_char_is_digit[of "n mod 10"]
      by (auto simp add: digits_of.simps[of n])
  qed
qed

lemma digits_of_last: "\<exists>pre. digits_of n = pre @ [digit_char (n mod 10)]"
  by (cases "n < 10") (simp_all add: digits_of.simps[of n])

lemma digit_char_not_special: "d < 10 \<Longrightarrow> \<not> regexp_special (digit_char d)"
  using digit_cases[of d] by (auto simp: regexp_special_def digit_char_def)

lemma digits_of_not_special: "c \<in> set (digits_of n) \<Longrightarrow> \<not> regexp_special c"
proof (induction n rule: digits_of.induct)
  case (1 n)
  show ?case
  proof (cases "n < 10")
    case True
    with 1(2) show ?thesis using digit_char_not_special[of n]
      by (simp add: digits_of.simps[of n])
  next
    case False
    with 1 show ?thesis using digit_char_not_special[of "n mod 10"]
      by (auto simp add: digits_of.simps[of n])
  qed
qed

lemma dash_not_special: "\<not> regexp_special (CHR ''-'')"
  by (simp add: regexp_special_def)

lemma Number_toString_not_special: "c \<in> set (Number_toString y) \<Longrightarrow> \<not> regexp_special c"
  using digits_of_not_special[of c] dash_not_special
  by (auto simp: Number_toString_def split: if_splits)

lemma CASE_pattern_literal:
  assumes "c \<in> set (''CASE-'' @ Number_toString y @ ''-'')"
  shows "\<not> regexp_special c"
proof -
  from assms consider "c \<in> set ''CASE-''" | "c \<in> set (Number_toString y)" | "c = CHR ''-''"
    by auto
  then show ?thesis
  proof cases
    case 1
    then show ?thesis by (auto simp: regexp_special_def)
  next
    case 2
    then show ?thesis by (rule Number_toString_not_special)
  next
    case 3
    then show ?thesis by (simp add: dash_not_special)
  qed
qed

lemma INV_pattern_literal:
  assumes "c \<in> set (''INV-'' @ Number_toString y @ ''-'')"
  shows "\<not> regexp_special c"
proof -
  from assms consider "c \<in> set ''INV-''" | "c \<in> set (Number_toString y)" | "c = CHR ''-''"
    by auto
  then show ?thesis
  proof cases
    case 1
    then show ?thesis by (auto simp: regexp_special_def)
  next
    case 2
    then show ?thesis by (rule Number_toString_not_special)
  next
    case 3
    then show ?thesis by (simp add: dash_not_special)
  qed
qed

lemma decimal_value_zeros: "decimal_value (replicate k (CHR ''0'') @ s) = decimal_value s"
proof -
  have "foldl (\<lambda>acc c. 10 * acc + digit_value c) 0 (replicate k (CHR ''0'')) = 0"
    by (induction k) (simp_all add: digit_value_def)
  then show ?thesis by (simp add: decimal_value_def)
qed

lemma take_concat_replicate_single: "take k (concat (replicate k [c])) = replicate k c"
  by (induction k) auto

lemma padStart_zero: "padStart w ''0'' s = replicate (w - length s) (CHR ''0'') @ s"
  by (simp add: padStart_def take_concat_replicate_single)

lemma decimal_value_padStart: "decimal_value (padStart w ''0'' (digits_of n)) = n"
  by (simp add: padStart_zero decimal_value_zeros decimal_value_digits_of)

lemma Number_toString_nat: "Number_toString (int n) = digits_of n"
  by (simp add: Number_toString_def)

lemma Number_toString_Suc: "Number_toString (int n + 1) = digits_of (Suc n)"
  using Number_toString_nat[of "Suc n"] by (simp add: add.commute)

lemma replicate_numeral: "replicate (numeral k) x = x # replicate (pred_numeral k) x"
  by (simp add: numeral_eq_Suc)

lemmas eval_strings =
  Number_toString_def digits_of.simps digit_char_def padStart_zero slice_def
  RegExp_test_def truthy_def replicate_numeral

lemma padStart_examples:
  "padStart 4 ''0'' (Number_toString 1) = ''0001'' \<and>
   padStart 4 ''0'' (Number_toString 9999) = ''9999'' \<and>
   padStart 4 ''0'' (Number_toString (9999 + 1)) = ''10000''"
  by (simp add: eval_strings)

section \<open>Facts about the hooks\<close>

lemma countDocuments_prefix:
  "\<not> query_throws e \<Longrightarrow>
   countDocuments e path collection (CHR ''^'' # pre) =
     Inr (length (filter (\<lambda>d. case path d of None \<Rightarrow> False
                                | Some s \<Rightarrow> take (length pre) s = pre) collection))"
  by (simp add: countDocuments_def RegExp_test_anchored matches_here_iff cong: option.case_cong)

lemma countDocuments_throws:
  "query_throws e \<Longrightarrow> countDocuments e path collection pattern = Inl QueryFailure"
  by (simp add: countDocuments_def)

lemma case_hook_happy:
  "\<not> query_throws e \<Longrightarrow> isNew c \<Longrightarrow> \<not> truthy (caseNumber c) \<Longrightarrow>
   countDocuments e caseNumber CaseModel (''^CASE-'' @ Number_toString (year_in_try e) @ ''-'')
     = Inr n \<Longrightarrow>
   caseSchema_pre_save e CaseModel c =
     \<lparr>doc = c\<lparr>caseNumber := Some (''CASE-'' @ Number_toString (year_in_try e) @ ''-'' @
               padStart 4 ''0'' (Number_toString (int n + 1)))\<rparr>,
      next_arg = None,
      queries = [''^CASE-'' @ Number_toString (year_in_try e) @ ''-'']\<rparr>"
  by (simp add: caseSchema_pre_save_def Let_def)

lemma invoice_hook_happy:
  "\<not> query_throws e \<Longrightarrow> \<not> truthy (invoiceNumber i) \<Longrightarrow>
   countDocuments e invoiceNumber InvoiceModel
       (''^INV-'' @ Number_toString (year_in_try e) @ ''-'') = Inr n \<Longrightarrow>
   invoiceSchema_pre_save_invoiceNumber e InvoiceModel i =
     \<lparr>doc = i\<lparr>invoiceNumber := Some (''INV-'' @ Number_toString (year_in_try e) @ ''-'' @
               padStart 4 ''0'' (Number_toString (int n + 1)))\<rparr>,
      next_arg = None,
      queries = [''^INV-'' @ Number_toString (year_in_try e) @ ''-'']\<rparr>"
  by (simp add: invoiceSchema_pre_save_invoiceNumber_def Let_def)

lemma case_hook_fallback:
  "query_throws e \<Longrightarrow> isNew c \<Longrightarrow> \<not> truthy (caseNumber c) \<Longrightarrow>
   caseSchema_pre_save e CaseModel c =
     \<lparr>doc = c\<lparr>caseNumber := Some (''CASE-'' @ Number_toString (year_in_catch e) @ ''-'' @
               slice (- 4) (Number_toString (Date_now e)))\<rparr>,
      next_arg = None,
      queries = [''^CASE-'' @ Number_toString (year_in_try e) @ ''-'']\<rparr>"
  by (simp add: caseSchema_pre_save_def Let_def countDocuments_throws)

lemma invoice_hook_fallback:
  "query_throws e \<Longrightarrow> \<not> truthy (invoiceNumber i) \<Longrightarrow>
   invoiceSchema_pre_save_invoiceNumber e InvoiceModel i =
     \<lparr>doc = i\<lparr>invoiceNumber := Some (''INV-'' @ Number_toString (year_in_catch e) @ ''-0001'')\<rparr>,
      next_arg = None,
      queries = [''^INV-'' @ Number_toString (year_in_try e) @ ''-'']\<rparr>"
  by (simp add: invoiceSchema_pre_save_invoiceNumber_def Let_def countDocuments_throws)

lemma case_hook_next: "next_arg (caseSchema_pre_save e CaseModel c) = None"
  by (simp add: caseSchema_pre_save_def Let_def split: sum.splits)

lemma invoice_hook_next: "next_arg (invoiceSchema_pre_save_invoiceNumber e InvoiceModel i) = None"
  by (simp add: invoiceSchema_pre_save_invoiceNumber_def Let_def split: sum.splits)

lemma digits_of_step: "10 \<le> n \<Longrightarrow> digits_of n = digits_of (n div 10) @ [digit_char (n mod 10)]"
  by (simp add: digits_of.simps[of n])

lemma digits_of_last_four:
  assumes "1000 \<le> t"
  shows "\<exists>pre. digits_of t =
           pre @ [digit_char (t div 1000 mod 10), digit_char (t div 100 mod 10),
                  digit_char (t div 10 mod 10), digit_char (t mod 10)]"
proof -
  have a: "digits_of t = digits_of (t div 10) @ [digit_char (t mod 10)]"
    using assms by (simp add: digits_of_step)
  have b: "digits_of (t div 10) = digits_of (t div 100) @ [digit_char (t div 10 mod 10)]"
    using assms digits_of_step[of "t div 10"] by (simp add: div_mult2_eq[symmetric])
  have c: "digits_of (t div 100) = digits_of (t div 1000) @ [digit_char (t div 100 mod 10)]"
    using assms digits_of_step[of "t div 100"] by (simp add: div_mult2_eq[symmetric])
  obtain pre where d: "digits_of (t div 1000) = pre @ [digit_char (t div 1000 mod 10)]"
    using digits_of_last[of "t div 1000"] by blast
  show ?thesis
    by (rule exI[of _ pre]) (simp add: a b c d)
qed

lemma slice_last_four: "slice (- 4) (pre @ [a, b, c, d]) = [a, b, c, d]"
  by (simp add: slice_def)

lemma invoice_pipeline_number:
  "\<not> truthy (invoiceNumber i) \<Longrightarrow>
   invoiceNumber (doc (Invoice_pre_save e InvoiceModel i)) =
   invoiceNumber (doc (invoiceSchema_pre_save_invoiceNumber e InvoiceModel i))"
  by (simp add: Invoice_pre_save_def invoiceSchema_pre_save_invoiceNumber_def
      invoiceSchema_pre_save_totalAmount_def Let_def split: sum.splits)

lemma padStart_digits_inj:
  "padStart w ''0'' (digits_of a) = padStart w ''0'' (digits_of b) \<Longrightarrow> a = b"
  by (metis decimal_value_padStart)

lemma countDocuments_numbered:
  "\<not> query_throws e \<Longrightarrow> numbered_up_to path pre M k \<Longrightarrow>
   countDocuments e path M (CHR ''^'' # pre) = Inr k"
  by (simp add: countDocuments_def numbered_up_to_def RegExp_test_anchored
      cong: option.case_cong)

lemma insertOne_numbered:
  assumes "\<not> write_throws e" and "numbered_up_to path pre M k"
    and "path d = Some (pre @ padStart 4 ''0'' (digits_of (Suc k)))"
  shows "insertOne e path M d = Inr (M @ [d])"
proof -
  have "path d \<notin> set (map path M)"
  proof
    assume "path d \<in> set (map path M)"
    then obtain d' where d': "d' \<in> set M" "path d' = path d" by auto
    have "matches_here pre (pre @ padStart 4 ''0'' (digits_of (Suc k)))"
      by (rule matches_here_append)
    with d' assms(2,3) obtain j where j: "j \<le> k"
      "pre @ padStart 4 ''0'' (digits_of (Suc k)) = pre @ padStart 4 ''0'' (digits_of j)"
      unfolding numbered_up_to_def by fastforce
    from j(2) have "Suc k = j" using padStart_digits_inj[of 4 "Suc k" j] by simp
    with j(1) show False by simp
  qed
  with assms(1) show ?thesis by (simp add: insertOne_def)
qed

lemma numbered_up_to_snoc:
  assumes "numbered_up_to path pre M k"
    and "path d = Some (pre @ padStart 4 ''0'' (digits_of (Suc k)))"
  shows "numbered_up_to path pre (M @ [d]) (Suc k)"
proof -
  have len: "length (filter (\<lambda>d. case path d of None \<Rightarrow> False | Some s \<Rightarrow> matches_here pre s)
               (M @ [d])) = Suc k"
    using assms by (simp add: numbered_up_to_def matches_here_append)
  have old: "\<exists>j. j \<le> Suc k \<and> s = pre @ padStart 4 ''0'' (digits_of j)"
    if "x \<in> set M" "path x = Some s" "matches_here pre s" for x s
  proof -
    from assms(1) that obtain j where "j \<le> k" "s = pre @ padStart 4 ''0'' (digits_of j)"
      unfolding numbered_up_to_def by blast
    then show ?thesis by (intro exI[of _ j]) simp
  qed
  have new: "\<exists>j. j \<le> Suc k \<and> s = pre @ padStart 4 ''0'' (digits_of j)"
    if "path d = Some s" for s
    using that assms(2) by (intro exI[of _ "Suc k"]) simp
  show ?thesis
    unfolding numbered_up_to_def using len old new by auto
qed

lemma numbered_up_to_start:
  assumes "\<forall>d \<in> set M. \<forall>s. path d = Some s \<longrightarrow> take (length pre) s \<noteq> pre"
  shows "numbered_up_to path pre M 0"
proof -
  have "filter (\<lambda>d. case path d of None \<Rightarrow> False | Some s \<Rightarrow> matches_here pre s) M = []"
    using assms by (auto simp: filter_empty_conv matches_here_iff split: option.splits)
  then show ?thesis
    using assms by (auto simp: numbered_up_to_def matches_here_iff)
qed

lemma Case_create_numbered:
  assumes "\<not> query_throws e" and "\<not> write_throws e" and "\<not> truthy (caseNumber g)"
    and "numbered_up_to caseNumber (''CASE-'' @ Number_toString (year_in_try e) @ ''-'') M k"
  shows "\<exists>d. Case_create e M g = Inr (M @ [d], d) \<and>
              caseNumber d = Some (''CASE-'' @ Number_toString (year_in_try e) @ ''-'' @
                                   padStart 4 ''0'' (digits_of (Suc k)))"
proof -
  let ?r = "caseSchema_pre_save e M (g\<lparr>isNew := True\<rparr>)"
  let ?d = "(doc ?r)\<lparr>isNew := False\<rparr>"
  have q: "countDocuments e caseNumber M (''^CASE-'' @ Number_toString (year_in_try e) @ ''-'') = Inr k"
    using countDocuments_numbered[OF assms(1,4)] by simp
  have h: "caseNumber (doc ?r) = Some (''CASE-'' @ Number_toString (year_in_try e) @ ''-'' @
               padStart 4 ''0'' (digits_of (Suc k)))"
    using case_hook_happy[of e "g\<lparr>isNew := True\<rparr>" M k] assms(1,3) q
    by (simp add: Number_toString_Suc)
  then have n: "caseNumber ?d = Some ((''CASE-'' @ Number_toString (year_in_try e) @ ''-'') @
               padStart 4 ''0'' (digits_of (Suc k)))"
    by simp
  have i: "insertOne e caseNumber M ?d = Inr (M @ [?d])"
    using assms(2,4) n by (rule insertOne_numbered)
  have "Case_create e M g = Inr (M @ [?d], ?d)"
    by (simp add: Case_create_def Let_def case_hook_next i)
  with n show ?thesis by auto
qed

lemma Case_create_all_numbered:
  assumes "\<forall>(e, g) \<in> set runs. \<not> query_throws e \<and> \<not> write_throws e \<and> year_in_try e = y \<and>
             \<not> truthy (caseNumber g)"
    and "numbered_up_to caseNumber (''CASE-'' @ Number_toString y @ ''-'') M k"
  shows "\<exists>M'. Case_create_all M runs =
           Inr (M', map (\<lambda>j. Some (''CASE-'' @ Number_toString y @ ''-'' @
                                    padStart 4 ''0'' (digits_of j)))
                       [Suc k ..< Suc k + length runs])"
  using assms
proof (induction runs arbitrary: M k)
  case Nil
  then show ?case by simp
next
  case (Cons run runs)
  obtain e g where run: "run = (e, g)" by (cases run)
  from Cons.prems(1) run have e: "\<not> query_throws e" "\<not> write_throws e" "year_in_try e = y"
    "\<not> truthy (caseNumber g)" by auto
  from Cons.prems(2) e(3)
  have inv: "numbered_up_to caseNumber (''CASE-'' @ Number_toString (year_in_try e) @ ''-'') M k"
    by simp
  obtain d where d: "Case_create e M g = Inr (M @ [d], d)"
    "caseNumber d = Some (''CASE-'' @ Number_toString y @ ''-'' @ padStart 4 ''0'' (digits_of (Suc k)))"
    using Case_create_numbered[OF e(1,2,4) inv] e(3) by auto
  have inv': "numbered_up_to caseNumber (''CASE-'' @ Number_toString y @ ''-'') (M @ [d]) (Suc k)"
    using Cons.prems(2) d(2) by (intro numbered_up_to_snoc) simp_all
  from Cons.prems(1) have rest: "\<forall>(e, g) \<in> set runs. \<not> query_throws e \<and> \<not> write_throws e \<and>
       year_in_try e = y \<and> \<not> truthy (caseNumber g)" by simp
  obtain M' where M': "Case_create_all (M @ [d]) runs =
           Inr (M', map (\<lambda>j. Some (''CASE-'' @ Number_toString y @ ''-'' @
                                    padStart 4 ''0'' (digits_of j)))
                       [Suc (Suc k) ..< Suc (Suc k) + length runs])"
    using Cons.IH[OF rest inv'] by blast
  have "[Suc k ..< Suc k + length (run # runs)] = Suc k # [Suc (Suc k) ..< Suc (Suc k) + length runs]"
    by (subst upt_rec) simp
  then show ?case
    using d M' run by (intro exI[of _ M']) simp
qed

lemma case_hook_truthy:
  "isNew c \<Longrightarrow> truthy (caseNumber (doc (caseSchema_pre_save e CaseModel c)))"
  by (simp add: caseSchema_pre_save_def Let_def truthy_def split: sum.splits)

lemma invoice_hook_truthy:
  "truthy (invoiceNumber (doc (invoiceSchema_pre_save_invoiceNumber e InvoiceModel i)))"
  by (simp add: invoiceSchema_pre_save_invoiceNumber_def Let_def truthy_def split: sum.splits)

lemma case_hook_noop:
  "\<not> isNew c \<or> truthy (caseNumber c) \<Longrightarrow> caseSchema_pre_save e CaseModel c =
     \<lparr>doc = c, next_arg = None, queries = []\<rparr>"
  by (auto simp: caseSchema_pre_save_def)

lemma invoice_hook_noop:
  "truthy (invoiceNumber i) \<Longrightarrow> invoiceSchema_pre_save_invoiceNumber e InvoiceModel i =
     \<lparr>doc = i, next_arg = None, queries = []\<rparr>"
  by (simp add: invoiceSchema_pre_save_invoiceNumber_def)

lemma invoice_pipeline_keeps_number:
  "truthy (invoiceNumber i) \<Longrightarrow>
   invoiceNumber (doc (Invoice_pre_save e InvoiceModel i)) = invoiceNumber i"
  by (simp add: Invoice_pre_save_def invoiceSchema_pre_save_invoiceNumber_def
      invoiceSchema_pre_save_totalAmount_def)

lemma Case_create_result:
  assumes "Case_create e CaseModel g = Inr (CaseModel', d)"
  shows "\<not> isNew d \<and> truthy (caseNumber d)"
proof -
  from assms have "d = (doc (caseSchema_pre_save e CaseModel (g\<lparr>isNew := True\<rparr>)))\<lparr>isNew := False\<rparr>"
    by (auto simp: Case_create_def Let_def case_hook_next split: sum.splits)
  then show ?thesis
    using case_hook_truthy[of "g\<lparr>isNew := True\<rparr>" e CaseModel] by simp
qed

lemma Invoice_pre_save_next: "next_arg (Invoice_pre_save e InvoiceModel i) = None"
  by (simp add: Invoice_pre_save_def invoice_hook_next)

lemma Invoice_save_rejects:
  "\<not> truthy (invoiceNumber i) \<or> totalAmount i = None \<Longrightarrow>
   Invoice_save e InvoiceModel i = Inl ValidationError"
  by (auto simp: Invoice_save_def Invoice_validate_def)

lemma Invoice_save_passes:
  "truthy (invoiceNumber i) \<Longrightarrow> totalAmount i \<noteq> None \<Longrightarrow>
   Invoice_save e InvoiceModel i = Inr (doc (Invoice_pre_save e InvoiceModel i))"
  by (simp add: Invoice_save_def Invoice_validate_def Invoice_pre_save_next)

lemma Invoice_save_result:
  assumes "Invoice_save e InvoiceModel i = Inr d"
  shows "truthy (invoiceNumber i) \<and> invoiceNumber d = invoiceNumber i"
proof -
  have v: "truthy (invoiceNumber i) \<and> totalAmount i \<noteq> None"
  proof (rule ccontr)
    assume "\<not> (truthy (invoiceNumber i) \<and> totalAmount i \<noteq> None)"
    then have "Invoice_save e InvoiceModel i = Inl ValidationError"
      by (intro Invoice_save_rejects) simp
    with assms show False by simp
  qed
  then have "d = doc (Invoice_pre_save e InvoiceModel i)"
    using assms by (simp add: Invoice_save_passes)
  with v show ?thesis
    by (simp add: invoice_pipeline_keeps_number)
qed

lemma Invoice_save_error:
  "Invoice_save e InvoiceModel i = Inl err \<Longrightarrow> err = ValidationError"
  by (auto simp: Invoice_save_def Invoice_validate_def Invoice_pre_save_next split: if_splits)

lemma Invoice_create_rejects:
  "\<not> truthy (invoiceNumber g) \<Longrightarrow> Invoice_create e InvoiceModel g = Inl ValidationError"
  by (simp add: Invoice_create_def Invoice_save_rejects)

lemma Invoice_create_result:
  assumes "Invoice_create e InvoiceModel g = Inr (InvoiceModel', d)"
  shows "\<not> isNew d \<and> truthy (invoiceNumber g) \<and> invoiceNumber d = invoiceNumber g"
proof -
  from assms obtain d' where s: "Invoice_save e InvoiceModel (g\<lparr>isNew := True\<rparr>) = Inr d'"
    and d: "d = d'\<lparr>isNew := False\<rparr>"
    by (auto simp: Invoice_create_def split: sum.splits)
  from Invoice_save_result[OF s] d show ?thesis by simp
qed

lemma Invoice_create_not_QueryFailure: "Invoice_create e InvoiceModel g \<noteq> Inl QueryFailure"
proof
  assume q: "Invoice_create e InvoiceModel g = Inl QueryFailure"
  show False
  proof (cases "Invoice_save e InvoiceModel (g\<lparr>isNew := True\<rparr>)")
    case (Inl err)
    with q Invoice_save_error[OF Inl] show False
      by (simp add: Invoice_create_def)
  next
    case (Inr d)
    with q show False
      by (simp add: Invoice_create_def insertOne_def split: if_splits)
  qed
qed

lemma foldl_plus_sum_list: "foldl (+) a xs = a + sum_list (xs :: 'a::monoid_add list)"
  by (induction xs arbitrary: a) (simp_all add: add.assoc)

lemma reduce_amounts:
  "foldl (\<lambda>sum item. sum + amount item) a xs = foldl (+) a (map amount xs)"
  by (induction xs arbitrary: a) simp_all

lemma invoice_hook_keeps_rest:
  "items (doc (invoiceSchema_pre_save_invoiceNumber e M i)) = items i \<and>
   totalAmount (doc (invoiceSchema_pre_save_invoiceNumber e M i)) = totalAmount i \<and>
   isNew (doc (invoiceSchema_pre_save_invoiceNumber e M i)) = isNew i"
  by (simp add: invoiceSchema_pre_save_invoiceNumber_def Let_def split: sum.splits)

lemma countDocuments_insert:
  assumes "countDocuments e path (M1 @ M2) (CHR ''^'' # pre) = Inr n"
    and "path d = Some (pre @ t)"
  shows "countDocuments e path (M1 @ d # M2) (CHR ''^'' # pre) = Inr (Suc n)"
  using assms
  by (auto simp: countDocuments_def RegExp_test_anchored matches_here_append split: if_splits)

section \<open>The claims\<close>

text \<open>
  C1. When no identifier comes with the new document and the count query answers, the
  hook writes the prefix, the year of the clock and a dash, followed by the decimal digits
  of the count plus one, filled with zeros on the left up to four characters and never cut.
  The count is the number of stored documents whose identifier begins with that prefix.
  For a Case the hook allocates only while the document is new.
\<close>

theorem happy_path_identifier:
  assumes "\<not> query_throws e"
  shows
    "(isNew c \<and> \<not> truthy (caseNumber c) \<longrightarrow>
        caseNumber (doc (caseSchema_pre_save e CaseModel c)) =
          (let pre = ''CASE-'' @ Number_toString (year_in_try e) @ ''-'';
               count = length (filter (\<lambda>d. case caseNumber d of None \<Rightarrow> False
                                            | Some s \<Rightarrow> take (length pre) s = pre) CaseModel);
               digits = digits_of (count + 1)
           in Some (pre @ replicate (4 - length digits) (CHR ''0'') @ digits))) \<and>
     (\<not> truthy (invoiceNumber i) \<longrightarrow>
        invoiceNumber (doc (invoiceSchema_pre_save_invoiceNumber e InvoiceModel i)) =
          (let pre = ''INV-'' @ Number_toString (year_in_try e) @ ''-'';
               count = length (filter (\<lambda>d. case invoiceNumber d of None \<Rightarrow> False
                                            | Some s \<Rightarrow> take (length pre) s = pre) InvoiceModel);
               digits = digits_of (count + 1)
           in Some (pre @ replicate (4 - length digits) (CHR ''0'') @ digits)))"
proof (intro conjI impI)
  assume c: "isNew c \<and> \<not> truthy (caseNumber c)"
  have q: "countDocuments e caseNumber CaseModel
             (CHR ''^'' # ''CASE-'' @ Number_toString (year_in_try e) @ ''-'') =
           Inr (length (filter (\<lambda>d. case caseNumber d of None \<Rightarrow> False
                  | Some s \<Rightarrow> take (length (''CASE-'' @ Number_toString (year_in_try e) @ ''-'')) s
                               = ''CASE-'' @ Number_toString (year_in_try e) @ ''-'') CaseModel))"
    using assms by (rule countDocuments_prefix)
  show "caseNumber (doc (caseSchema_pre_save e CaseModel c)) =
          (let pre = ''CASE-'' @ Number_toString (year_in_try e) @ ''-'';
               count = length (filter (\<lambda>d. case caseNumber d of None \<Rightarrow> False
                                            | Some s \<Rightarrow> take (length pre) s = pre) CaseModel);
               digits = digits_of (count + 1)
           in Some (pre @ replicate (4 - length digits) (CHR ''0'') @ digits))"
    using assms c q
    by (simp add: case_hook_happy Let_def padStart_zero Number_toString_Suc
          cong: option.case_cong)
next
  assume i: "\<not> truthy (invoiceNumber i)"
  have q: "countDocuments e invoiceNumber InvoiceModel
             (CHR ''^'' # ''INV-'' @ Number_toString (year_in_try e) @ ''-'') =
           Inr (length (filter (\<lambda>d. case invoiceNumber d of None \<Rightarrow> False
                  | Some s \<Rightarrow> take (length (''INV-'' @ Number_toString (year_in_try e) @ ''-'')) s
                               = ''INV-'' @ Number_toString (year_in_try e) @ ''-'') InvoiceModel))"
    using assms by (rule countDocuments_prefix)
  show "invoiceNumber (doc (invoiceSchema_pre_save_invoiceNumber e InvoiceModel i)) =
          (let pre = ''INV-'' @ Number_toString (year_in_try e) @ ''-'';
               count = length (filter (\<lambda>d. case invoiceNumber d of None \<Rightarrow> False
                                            | Some s \<Rightarrow> take (length pre) s = pre) InvoiceModel);
               digits = digits_of (count + 1)
           in Some (pre @ replicate (4 - length digits) (CHR ''0'') @ digits))"
    using assms i q
    by (simp add: invoice_hook_happy Let_def padStart_zero Number_toString_Suc
          cong: option.case_cong)
qed

theorem happy_path_identifier_witness:
  "\<not> query_throws \<lparr>year_in_try = 2024, year_in_catch = 2024, Date_now = 1718000000000,
                    query_throws = False, write_throws = False\<rparr> \<and>
   caseNumber (doc (caseSchema_pre_save
       \<lparr>year_in_try = 2024, year_in_catch = 2024, Date_now = 1718000000000,
        query_throws = False, write_throws = False\<rparr>
       [\<lparr>isNew = False, caseNumber = Some ''CASE-2024-0001''\<rparr>,
        \<lparr>isNew = False, caseNumber = Some ''CASE-2023-0001''\<rparr>,
        \<lparr>isNew = False, caseNumber = None\<rparr>,
        \<lparr>isNew = False, caseNumber = Some ''CASE-2024-0002''\<rparr>]
       \<lparr>isNew = True, caseNumber = None\<rparr>)) = Some ''CASE-2024-0003'' \<and>
   invoiceNumber (doc (invoiceSchema_pre_save_invoiceNumber
       \<lparr>year_in_try = 2024, year_in_catch = 2024, Date_now = 1718000000000,
        query_throws = False, write_throws = False\<rparr>
       []
       \<lparr>isNew = True, invoiceNumber = Some [], totalAmount = None,
        items = ([] :: int invoiceItem list), isModified = (\<lambda>p. False)\<rparr>))
     = Some ''INV-2024-0001''"
  using happy_path_identifier
    [where e = "\<lparr>year_in_try = 2024, year_in_catch = 2024, Date_now = 1718000000000,
                 query_throws = False, write_throws = False\<rparr>"
       and CaseModel = "[\<lparr>isNew = False, caseNumber = Some ''CASE-2024-0001''\<rparr>,
                         \<lparr>isNew = False, caseNumber = Some ''CASE-2023-0001''\<rparr>,
                         \<lparr>isNew = False, caseNumber = None\<rparr>,
                         \<lparr>isNew = False, caseNumber = Some ''CASE-2024-0002''\<rparr>]"
       and c = "\<lparr>isNew = True, caseNumber = None\<rparr>"
       and InvoiceModel = "[]"
       and i = "\<lparr>isNew = True, invoiceNumber = Some [], totalAmount = None,
                 items = ([] :: int invoiceItem list), isModified = (\<lambda>p. False)\<rparr>"]
  by (simp add: eval_strings)

text \<open>
  C2. A non-empty identifier supplied with the document is kept: whatever the clock, the
  store and the rest of the document are, and whether or not the store would answer, both
  hooks hand the document on unchanged, call \<^verbatim>\<open>next()\<close> and issue no count query.
\<close>

theorem presupplied_identifier_is_kept:
  "s \<noteq> [] \<Longrightarrow>
   caseSchema_pre_save e CaseModel (c\<lparr>caseNumber := Some s\<rparr>) =
     \<lparr>doc = c\<lparr>caseNumber := Some s\<rparr>, next_arg = None, queries = []\<rparr> \<and>
   invoiceSchema_pre_save_invoiceNumber e InvoiceModel (i\<lparr>invoiceNumber := Some s\<rparr>) =
     \<lparr>doc = i\<lparr>invoiceNumber := Some s\<rparr>, next_arg = None, queries = []\<rparr>"
  by (simp add: caseSchema_pre_save_def invoiceSchema_pre_save_invoiceNumber_def truthy_def)

theorem presupplied_identifier_is_kept_witness:
  "''CASE-2024-0007'' \<noteq> [] \<and>
   caseSchema_pre_save
       \<lparr>year_in_try = 2031, year_in_catch = 2031, Date_now = 1924992000123,
        query_throws = True, write_throws = False\<rparr>
       [\<lparr>isNew = False, caseNumber = Some ''CASE-2031-0001''\<rparr>]
       \<lparr>isNew = True, caseNumber = Some ''CASE-2024-0007''\<rparr> =
     \<lparr>doc = \<lparr>isNew = True, caseNumber = Some ''CASE-2024-0007''\<rparr>,
      next_arg = None, queries = []\<rparr> \<and>
   invoiceSchema_pre_save_invoiceNumber
       \<lparr>year_in_try = 2031, year_in_catch = 2031, Date_now = 1924992000123,
        query_throws = True, write_throws = False\<rparr>
       []
       \<lparr>isNew = True, invoiceNumber = Some ''CASE-2024-0007'', totalAmount = None,
        items = ([] :: int invoiceItem list), isModified = (\<lambda>p. False)\<rparr> =
     \<lparr>doc = \<lparr>isNew = True, invoiceNumber = Some ''CASE-2024-0007'', totalAmount = None,
              items = [], isModified = (\<lambda>p. False)\<rparr>,
      next_arg = None, queries = []\<rparr>"
proof -
  have a: "''CASE-2024-0007'' \<noteq> []"
    by simp
  show ?thesis
    using a
      presupplied_identifier_is_kept [OF a,
        where e = "\<lparr>year_in_try = 2031, year_in_catch = 2031, Date_now = 1924992000123,
                    query_throws = True, write_throws = False\<rparr>"
          and CaseModel = "[\<lparr>isNew = False, caseNumber = Some ''CASE-2031-0001''\<rparr>]"
          and c = "\<lparr>isNew = True, caseNumber = None\<rparr>"
          and InvoiceModel = "[]"
          and i = "\<lparr>isNew = True, invoiceNumber = None, totalAmount = None,
                    items = ([] :: int invoiceItem list), isModified = (\<lambda>p. False)\<rparr>"]
    by simp
qed

text \<open>
  C3. The identifier of the happy path is a function of the year and of the count the
  query returned: two runs that read the same count in the same year, on whatever stores
  and documents, write the same identifier, the one of the count plus one. Two runs that
  both read the store before either document is written are such runs.
\<close>

theorem same_count_same_identifier:
  assumes "year_in_try e1 = y" and "year_in_try e2 = y"
    and "countDocuments e1 caseNumber casesA (''^CASE-'' @ Number_toString y @ ''-'') = Inr n"
    and "countDocuments e2 caseNumber casesB (''^CASE-'' @ Number_toString y @ ''-'') = Inr n"
    and "isNew c1 \<and> \<not> truthy (caseNumber c1)" and "isNew c2 \<and> \<not> truthy (caseNumber c2)"
    and "countDocuments e1 invoiceNumber invoicesA (''^INV-'' @ Number_toString y @ ''-'') = Inr m"
    and "countDocuments e2 invoiceNumber invoicesB (''^INV-'' @ Number_toString y @ ''-'') = Inr m"
    and "\<not> truthy (invoiceNumber i1)" and "\<not> truthy (invoiceNumber i2)"
  shows
    "caseNumber (doc (caseSchema_pre_save e1 casesA c1)) =
       Some (''CASE-'' @ Number_toString y @ ''-'' @ padStart 4 ''0'' (Number_toString (int n + 1))) \<and>
     caseNumber (doc (caseSchema_pre_save e2 casesB c2)) =
       caseNumber (doc (caseSchema_pre_save e1 casesA c1)) \<and>
     invoiceNumber (doc (invoiceSchema_pre_save_invoiceNumber e1 invoicesA i1)) =
       Some (''INV-'' @ Number_toString y @ ''-'' @ padStart 4 ''0'' (Number_toString (int m + 1))) \<and>
     invoiceNumber (doc (invoiceSchema_pre_save_invoiceNumber e2 invoicesB i2)) =
       invoiceNumber (doc (invoiceSchema_pre_save_invoiceNumber e1 invoicesA i1))"
proof -
  have t1: "\<not> query_throws e1" and t2: "\<not> query_throws e2"
    using assms(3,4) by (auto simp: countDocuments_def split: if_splits)
  have a: "caseNumber (doc (caseSchema_pre_save e1 casesA c1)) =
       Some (''CASE-'' @ Number_toString y @ ''-'' @ padStart 4 ''0'' (Number_toString (int n + 1)))"
    using case_hook_happy[of e1 c1 casesA n] t1 assms(1,3,5) by simp
  have b: "caseNumber (doc (caseSchema_pre_save e2 casesB c2)) =
       Some (''CASE-'' @ Number_toString y @ ''-'' @ padStart 4 ''0'' (Number_toString (int n + 1)))"
    using case_hook_happy[of e2 c2 casesB n] t2 assms(2,4,6) by simp
  have c: "invoiceNumber (doc (invoiceSchema_pre_save_invoiceNumber e1 invoicesA i1)) =
       Some (''INV-'' @ Number_toString y @ ''-'' @ padStart 4 ''0'' (Number_toString (int m + 1)))"
    using invoice_hook_happy[of e1 i1 invoicesA m] t1 assms(1,7,9) by simp
  have d: "invoiceNumber (doc (invoiceSchema_pre_save_invoiceNumber e2 invoicesB i2)) =
       Some (''INV-'' @ Number_toString y @ ''-'' @ padStart 4 ''0'' (Number_toString (int m + 1)))"
    using invoice_hook_happy[of e2 i2 invoicesB m] t2 assms(2,8,10) by simp
  from a b c d show ?thesis by simp
qed

theorem same_count_same_identifier_witness:
  "caseNumber (doc (caseSchema_pre_save
       \<lparr>year_in_try = 2024, year_in_catch = 2024, Date_now = 1718000000000,
        query_throws = False, write_throws = False\<rparr>
       [\<lparr>isNew = False, caseNumber = Some ''CASE-2024-0001''\<rparr>,
        \<lparr>isNew = False, caseNumber = Some ''CASE-2024-0002''\<rparr>,
        \<lparr>isNew = False, caseNumber = Some ''CASE-2024-0003''\<rparr>,
        \<lparr>isNew = False, caseNumber = Some ''CASE-2024-0004''\<rparr>,
        \<lparr>isNew = False, caseNumber = Some ''CASE-2024-0005''\<rparr>]
       \<lparr>isNew = True, caseNumber = None\<rparr>)) = Some ''CASE-2024-0006'' \<and>
   caseNumber (doc (caseSchema_pre_save
       \<lparr>year_in_try = 2024, year_in_catch = 2024, Date_now = 1718000000007,
        query_throws = False, write_throws = False\<rparr>
       [\<lparr>isNew = False, caseNumber = Some ''CASE-2024-0001''\<rparr>,
        \<lparr>isNew = False, caseNumber = Some ''CASE-2024-0002''\<rparr>,
        \<lparr>isNew = False, caseNumber = Some ''CASE-2024-0003''\<rparr>,
        \<lparr>isNew = False, caseNumber = Some ''CASE-2024-0004''\<rparr>,
        \<lparr>isNew = False, caseNumber = Some ''CASE-2024-0005''\<rparr>]
       \<lparr>isNew = True, caseNumber = Some []\<rparr>)) = Some ''CASE-2024-0006'' \<and>
   invoiceNumber (doc (invoiceSchema_pre_save_invoiceNumber
       \<lparr>year_in_try = 2024, year_in_catch = 2024, Date_now = 1718000000000,
        query_throws = False, write_throws = False\<rparr>
       [\<lparr>isNew = False, invoiceNumber = Some ''INV-2024-0001'', totalAmount = Some 0,
         items = [], isModified = (\<lambda>p. False)\<rparr>]
       \<lparr>isNew = True, invoiceNumber = None, totalAmount = None,
        items = ([] :: int invoiceItem list), isModified = (\<lambda>p. False)\<rparr>))
     = Some ''INV-2024-0002'' \<and>
   invoiceNumber (doc (invoiceSchema_pre_save_invoiceNumber
       \<lparr>year_in_try = 2024, year_in_catch = 2024, Date_now = 1718000000007,
        query_throws = False, write_throws = False\<rparr>
       [\<lparr>isNew = False, invoiceNumber = Some ''INV-2024-0001'', totalAmount = Some 0,
         items = [], isModified = (\<lambda>p. False)\<rparr>]
       \<lparr>isNew = True, invoiceNumber = None, totalAmount = None,
        items = ([] :: int invoiceItem list), isModified = (\<lambda>p. False)\<rparr>))
     = Some ''INV-2024-0002''"
  using same_count_same_identifier
    [where y = 2024 and n = 5 and m = 1
       and ?e1.0 = "\<lparr>year_in_try = 2024, year_in_catch = 2024, Date_now = 1718000000000,
                     query_throws = False, write_throws = False\<rparr>"
       and ?e2.0 = "\<lparr>year_in_try = 2024, year_in_catch = 2024, Date_now = 1718000000007,
                     query_throws = False, write_throws = False\<rparr>"
       and casesA = "[\<lparr>isNew = False, caseNumber = Some ''CASE-2024-0001''\<rparr>,
                     \<lparr>isNew = False, caseNumber = Some ''CASE-2024-0002''\<rparr>,
                     \<lparr>isNew = False, caseNumber = Some ''CASE-2024-0003''\<rparr>,
                     \<lparr>isNew = False, caseNumber = Some ''CASE-2024-0004''\<rparr>,
                     \<lparr>isNew = False, caseNumber = Some ''CASE-2024-0005''\<rparr>]"
       and casesB = "[\<lparr>isNew = False, caseNumber = Some ''CASE-2024-0001''\<rparr>,
                     \<lparr>isNew = False, caseNumber = Some ''CASE-2024-0002''\<rparr>,
                     \<lparr>isNew = False, caseNumber = Some ''CASE-2024-0003''\<rparr>,
                     \<lparr>isNew = False, caseNumber = Some ''CASE-2024-0004''\<rparr>,
                     \<lparr>isNew = False, caseNumber = Some ''CASE-2024-0005''\<rparr>]"
       and ?c1.0 = "\<lparr>isNew = True, caseNumber = None\<rparr>"
       and ?c2.0 = "\<lparr>isNew = True, caseNumber = Some []\<rparr>"
       and invoicesA = "[\<lparr>isNew = False, invoiceNumber = Some ''INV-2024-0001'', totalAmount = Some 0,
                      items = [], isModified = (\<lambda>p. False)\<rparr>]"
       and invoicesB = "[\<lparr>isNew = False, invoiceNumber = Some ''INV-2024-0001'', totalAmount = Some 0,
                      items = [], isModified = (\<lambda>p. False)\<rparr>]"
       and ?i1.0 = "\<lparr>isNew = True, invoiceNumber = None, totalAmount = None,
                     items = ([] :: int invoiceItem list), isModified = (\<lambda>p. False)\<rparr>"
       and ?i2.0 = "\<lparr>isNew = True, invoiceNumber = None, totalAmount = None,
                     items = ([] :: int invoiceItem list), isModified = (\<lambda>p. False)\<rparr>"]
  by (simp add: countDocuments_def eval_strings)

text \<open>
  C4. The allocator writes an identifier at the first persistence only. A Case that is
  already persisted leaves its hook as it entered it, whatever its number is. An Invoice
  passes the validation of \<^verbatim>\<open>save()\<close> only with a non-empty number, so every save that gets
  through to the hooks, the first or a later one, hands on the number it came with, and a
  save of an invoice without number ends in the validation, before any hook. The document
  a creation returns is persisted and carries a non-empty identifier; a later save of it
  keeps that identifier.
\<close>

theorem identifier_assigned_once:
  "(\<not> isNew c \<longrightarrow> doc (caseSchema_pre_save e CaseModel c) = c) \<and>
   (Invoice_save e InvoiceModel i = Inr d \<longrightarrow> invoiceNumber d = invoiceNumber i) \<and>
   (\<not> truthy (invoiceNumber i) \<longrightarrow> Invoice_save e InvoiceModel i = Inl ValidationError) \<and>
   (Case_create e1 casesA g = Inr (casesA', k) \<longrightarrow>
      \<not> isNew k \<and> truthy (caseNumber k) \<and> doc (caseSchema_pre_save e2 casesB k) = k) \<and>
   (Invoice_create e1 invoicesA h = Inr (invoicesA', j) \<longrightarrow>
      \<not> isNew j \<and> truthy (invoiceNumber j) \<and> invoiceNumber j = invoiceNumber h)"
proof (intro conjI impI)
  show "doc (caseSchema_pre_save e CaseModel c) = c" if "\<not> isNew c"
    using that by (simp add: case_hook_noop)
  show "invoiceNumber d = invoiceNumber i" if "Invoice_save e InvoiceModel i = Inr d"
    using Invoice_save_result[OF that] by simp
  show "Invoice_save e InvoiceModel i = Inl ValidationError" if "\<not> truthy (invoiceNumber i)"
    using that by (simp add: Invoice_save_rejects)
  show "\<not> isNew k" if "Case_create e1 casesA g = Inr (casesA', k)"
    using Case_create_result[OF that] by simp
  show "truthy (caseNumber k)" if "Case_create e1 casesA g = Inr (casesA', k)"
    using Case_create_result[OF that] by simp
  show "doc (caseSchema_pre_save e2 casesB k) = k" if "Case_create e1 casesA g = Inr (casesA', k)"
    using Case_create_result[OF that] by (simp add: case_hook_noop)
  show "\<not> isNew j" if "Invoice_create e1 invoicesA h = Inr (invoicesA', j)"
    using Invoice_create_result[OF that] by simp
  show "truthy (invoiceNumber j)" if "Invoice_create e1 invoicesA h = Inr (invoicesA', j)"
    using Invoice_create_result[OF that] by simp
  show "invoiceNumber j = invoiceNumber h" if "Invoice_create e1 invoicesA h = Inr (invoicesA', j)"
    using Invoice_create_result[OF that] by simp
qed

theorem identifier_assigned_once_witness:
  "doc (caseSchema_pre_save
       \<lparr>year_in_try = 2025, year_in_catch = 2025, Date_now = 1750000000000,
        query_throws = False, write_throws = False\<rparr>
       [\<lparr>isNew = False, caseNumber = None\<rparr>]
       \<lparr>isNew = False, caseNumber = None\<rparr>) = \<lparr>isNew = False, caseNumber = None\<rparr> \<and>
   Invoice_save
       \<lparr>year_in_try = 2025, year_in_catch = 2025, Date_now = 1750000000000,
        query_throws = False, write_throws = False\<rparr>
       [\<lparr>isNew = False, invoiceNumber = Some ''INV-2024-0007'', totalAmount = Some 0,
         items = [], isModified = (\<lambda>p. False)\<rparr>]
       \<lparr>isNew = False, invoiceNumber = Some ''INV-2024-0007'', totalAmount = Some (0::int),
        items = [], isModified = (\<lambda>p. p = ''status'')\<rparr> =
     Inr \<lparr>isNew = False, invoiceNumber = Some ''INV-2024-0007'', totalAmount = Some 0,
          items = [], isModified = (\<lambda>p. p = ''status'')\<rparr> \<and>
   Invoice_save
       \<lparr>year_in_try = 2025, year_in_catch = 2025, Date_now = 1750000000000,
        query_throws = False, write_throws = False\<rparr>
       [\<lparr>isNew = False, invoiceNumber = Some ''INV-2024-0007'', totalAmount = Some 0,
         items = [], isModified = (\<lambda>p. False)\<rparr>]
       \<lparr>isNew = False, invoiceNumber = None, totalAmount = Some (0::int),
        items = [], isModified = (\<lambda>p. p = ''invoiceNumber'')\<rparr> = Inl ValidationError \<and>
   Case_create
       \<lparr>year_in_try = 2024, year_in_catch = 2024, Date_now = 1718000000000,
        query_throws = False, write_throws = False\<rparr>
       [] \<lparr>isNew = True, caseNumber = None\<rparr> =
     Inr ([\<lparr>isNew = False, caseNumber = Some ''CASE-2024-0001''\<rparr>],
          \<lparr>isNew = False, caseNumber = Some ''CASE-2024-0001''\<rparr>) \<and>
   doc (caseSchema_pre_save
       \<lparr>year_in_try = 2025, year_in_catch = 2025, Date_now = 1750000000000,
        query_throws = False, write_throws = False\<rparr>
       [\<lparr>isNew = False, caseNumber = Some ''CASE-2024-0001''\<rparr>,
        \<lparr>isNew = False, caseNumber = Some ''CASE-2025-0001''\<rparr>]
       \<lparr>isNew = False, caseNumber = Some ''CASE-2024-0001''\<rparr>)
     = \<lparr>isNew = False, caseNumber = Some ''CASE-2024-0001''\<rparr> \<and>
   Invoice_create
       \<lparr>year_in_try = 2024, year_in_catch = 2024, Date_now = 1718000000000,
        query_throws = False, write_throws = False\<rparr>
       [] \<lparr>isNew = True, invoiceNumber = Some ''INV-2024-0001'', totalAmount = Some (0::int),
           items = [], isModified = (\<lambda>p. False)\<rparr> =
     Inr ([\<lparr>isNew = False, invoiceNumber = Some ''INV-2024-0001'', totalAmount = Some 0,
            items = [], isModified = (\<lambda>p. False)\<rparr>],
          \<lparr>isNew = False, invoiceNumber = Some ''INV-2024-0001'', totalAmount = Some 0,
           items = [], isModified = (\<lambda>p. False)\<rparr>)"
proof -
  let ?e1 = "\<lparr>year_in_try = 2024, year_in_catch = 2024, Date_now = 1718000000000,
              query_throws = False, write_throws = False\<rparr>"
  let ?e2 = "\<lparr>year_in_try = 2025, year_in_catch = 2025, Date_now = 1750000000000,
              query_throws = False, write_throws = False\<rparr>"
  let ?g = "\<lparr>isNew = True, caseNumber = None\<rparr>"
  let ?k = "\<lparr>isNew = False, caseNumber = Some ''CASE-2024-0001''\<rparr>"
  let ?M = "[\<lparr>isNew = False, invoiceNumber = Some ''INV-2024-0007'', totalAmount = Some (0::int),
              items = [], isModified = (\<lambda>p. False)\<rparr>]"
  let ?i = "\<lparr>isNew = False, invoiceNumber = Some ''INV-2024-0007'', totalAmount = Some (0::int),
             items = [], isModified = (\<lambda>p. p = ''status'')\<rparr>"
  let ?i' = "\<lparr>isNew = False, invoiceNumber = None, totalAmount = Some (0::int),
              items = [], isModified = (\<lambda>p. p = ''invoiceNumber'')\<rparr>"
  let ?h = "\<lparr>isNew = True, invoiceNumber = Some ''INV-2024-0001'', totalAmount = Some (0::int),
             items = [], isModified = (\<lambda>p. False)\<rparr>"
  let ?j = "\<lparr>isNew = False, invoiceNumber = Some ''INV-2024-0001'', totalAmount = Some (0::int),
             items = [], isModified = (\<lambda>p. False)\<rparr>"
  have hg: "caseSchema_pre_save ?e1 [] ?g =
      \<lparr>doc = \<lparr>isNew = True, caseNumber = Some ''CASE-2024-0001''\<rparr>, next_arg = None,
       queries = [''^CASE-2024-'']\<rparr>"
    using case_hook_happy[where e = ?e1 and CaseModel = "[]" and c = ?g and n = 0]
    by (simp add: countDocuments_def eval_strings)
  have created: "Case_create ?e1 [] ?g = Inr ([?k], ?k)"
    by (simp add: Case_create_def hg insertOne_def)
  have ti: "truthy (invoiceNumber ?i)" and th: "truthy (invoiceNumber ?h)"
    and ni: "\<not> truthy (invoiceNumber ?i')"
    by (simp_all add: truthy_def)
  have pi: "doc (Invoice_pre_save ?e2 ?M ?i) = ?i"
    using ti by (simp add: Invoice_pre_save_def invoice_hook_noop
        invoiceSchema_pre_save_totalAmount_def)
  have saved: "Invoice_save ?e2 ?M ?i = Inr ?i"
    using ti by (simp add: Invoice_save_passes pi)
  have ph: "doc (Invoice_pre_save ?e1 [] ?h) = ?h"
    using th by (simp add: Invoice_pre_save_def invoice_hook_noop
        invoiceSchema_pre_save_totalAmount_def)
  have invoiced: "Invoice_create ?e1 [] ?h = Inr ([?j], ?j)"
    using th by (simp add: Invoice_create_def Invoice_save_passes ph insertOne_def)
  show ?thesis
    using created saved invoiced ni
      identifier_assigned_once
        [where c = "\<lparr>isNew = False, caseNumber = None\<rparr>" and e = ?e2
           and CaseModel = "[\<lparr>isNew = False, caseNumber = None\<rparr>]"
           and i = ?i' and InvoiceModel = ?M and d = ?i
           and ?e1.0 = ?e1 and casesA = "[]" and g = ?g
           and casesA' = "[?k]" and k = ?k and ?e2.0 = ?e2
           and casesB = "[?k, \<lparr>isNew = False, caseNumber = Some ''CASE-2025-0001''\<rparr>]"
           and invoicesA = "[]" and h = ?h and invoicesA' = "[?j]" and j = ?j]
    by simp
qed

text \<open>
  C5. When the count query throws while an Invoice without a number is saved, the hook
  writes the literal \<^verbatim>\<open>INV-{year}-0001\<close>, the year read in the \<^verbatim>\<open>catch\<close> block: the store
  has no part in it, so every such failure gives the same number. The same holds after the
  whole chain of invoice hooks.
\<close>

theorem invoice_fallback_is_fixed:
  assumes "query_throws e" and "\<not> truthy (invoiceNumber i)"
  shows
    "invoiceNumber (doc (invoiceSchema_pre_save_invoiceNumber e InvoiceModel i)) =
       Some (''INV-'' @ Number_toString (year_in_catch e) @ ''-0001'') \<and>
     invoiceNumber (doc (Invoice_pre_save e InvoiceModel i)) =
       Some (''INV-'' @ Number_toString (year_in_catch e) @ ''-0001'')"
  using assms by (simp add: invoice_pipeline_number invoice_hook_fallback)

theorem invoice_fallback_is_fixed_witness:
  "query_throws \<lparr>year_in_try = 2024, year_in_catch = 2025, Date_now = 1735689600000,
                 query_throws = True, write_throws = False\<rparr> \<and>
   invoiceNumber (doc (invoiceSchema_pre_save_invoiceNumber
       \<lparr>year_in_try = 2024, year_in_catch = 2025, Date_now = 1735689600000,
        query_throws = True, write_throws = False\<rparr>
       [\<lparr>isNew = False, invoiceNumber = Some ''INV-2025-0001'', totalAmount = Some 0,
         items = [], isModified = (\<lambda>p. False)\<rparr>]
       \<lparr>isNew = True, invoiceNumber = None, totalAmount = None,
        items = ([] :: int invoiceItem list), isModified = (\<lambda>p. False)\<rparr>))
     = Some ''INV-2025-0001''"
  using invoice_fallback_is_fixed
    [where e = "\<lparr>year_in_try = 2024, year_in_catch = 2025, Date_now = 1735689600000,
                 query_throws = True, write_throws = False\<rparr>"
       and InvoiceModel = "[\<lparr>isNew = False, invoiceNumber = Some ''INV-2025-0001'',
                             totalAmount = Some 0, items = [], isModified = (\<lambda>p. False)\<rparr>]"
       and i = "\<lparr>isNew = True, invoiceNumber = None, totalAmount = None,
                 items = ([] :: int invoiceItem list), isModified = (\<lambda>p. False)\<rparr>"]
  by (simp add: eval_strings)

text \<open>
  C6. When the count query throws while a new Case without a number is saved, the hook
  writes \<^verbatim>\<open>CASE-{year}-\<close>, the year read in the \<^verbatim>\<open>catch\<close> block, followed by the last four
  decimal digits of \<^verbatim>\<open>Date.now()\<close>: the thousands, hundreds, tens and units digit of the
  timestamp. The timestamp is one with at least four digits, which every clock reading
  from one second after the epoch on is.
\<close>

theorem case_fallback_last_four_digits:
  assumes "query_throws e" and "isNew c" and "\<not> truthy (caseNumber c)"
    and "1000 \<le> Date_now e"
  shows
    "caseNumber (doc (caseSchema_pre_save e CaseModel c)) =
       Some (''CASE-'' @ Number_toString (year_in_catch e) @ ''-'' @
             [digit_char (nat (Date_now e) div 1000 mod 10),
              digit_char (nat (Date_now e) div 100 mod 10),
              digit_char (nat (Date_now e) div 10 mod 10),
              digit_char (nat (Date_now e) mod 10)]) \<and>
     set [digit_char (nat (Date_now e) div 1000 mod 10),
          digit_char (nat (Date_now e) div 100 mod 10),
          digit_char (nat (Date_now e) div 10 mod 10),
          digit_char (nat (Date_now e) mod 10)] \<subseteq> set ''0123456789''"
proof -
  have t: "1000 \<le> nat (Date_now e)" and nn: "\<not> Date_now e < 0"
    using assms(4) by simp_all
  obtain pre where p: "digits_of (nat (Date_now e)) =
      pre @ [digit_char (nat (Date_now e) div 1000 mod 10),
             digit_char (nat (Date_now e) div 100 mod 10),
             digit_char (nat (Date_now e) div 10 mod 10),
             digit_char (nat (Date_now e) mod 10)]"
    using digits_of_last_four[OF t] by blast
  have s: "slice (- 4) (Number_toString (Date_now e)) =
      [digit_char (nat (Date_now e) div 1000 mod 10),
       digit_char (nat (Date_now e) div 100 mod 10),
       digit_char (nat (Date_now e) div 10 mod 10),
       digit_char (nat (Date_now e) mod 10)]"
    using nn by (simp add: Number_toString_def p slice_last_four)
  have d: "set [digit_char (nat (Date_now e) div 1000 mod 10),
          digit_char (nat (Date_now e) div 100 mod 10),
          digit_char (nat (Date_now e) div 10 mod 10),
          digit_char (nat (Date_now e) mod 10)] \<subseteq> set ''0123456789''"
    using digit_char_is_digit[of "nat (Date_now e) div 1000 mod 10"]
      digit_char_is_digit[of "nat (Date_now e) div 100 mod 10"]
      digit_char_is_digit[of "nat (Date_now e) div 10 mod 10"]
      digit_char_is_digit[of "nat (Date_now e) mod 10"]
    by simp
  have "caseNumber (doc (caseSchema_pre_save e CaseModel c)) =
       Some (''CASE-'' @ Number_toString (year_in_catch e) @ ''-'' @
             slice (- 4) (Number_toString (Date_now e)))"
    using assms(1,2,3) by (simp add: case_hook_fallback)
  with s d show ?thesis by simp
qed

theorem case_fallback_last_four_digits_witness:
  "query_throws \<lparr>year_in_try = 2024, year_in_catch = 2024, Date_now = 1718000004071,
                 query_throws = True, write_throws = False\<rparr> \<and>
   (1000::int) \<le> 1718000004071 \<and>
   caseNumber (doc (caseSchema_pre_save
       \<lparr>year_in_try = 2024, year_in_catch = 2024, Date_now = 1718000004071,
        query_throws = True, write_throws = False\<rparr>
       [\<lparr>isNew = False, caseNumber = Some ''CASE-2024-0001''\<rparr>]
       \<lparr>isNew = True, caseNumber = None\<rparr>)) = Some ''CASE-2024-4071''"
  using case_fallback_last_four_digits
    [where e = "\<lparr>year_in_try = 2024, year_in_catch = 2024, Date_now = 1718000004071,
                 query_throws = True, write_throws = False\<rparr>"
       and CaseModel = "[\<lparr>isNew = False, caseNumber = Some ''CASE-2024-0001''\<rparr>]"
       and c = "\<lparr>isNew = True, caseNumber = None\<rparr>"]
  by (simp add: eval_strings)

text \<open>
  C7. A failing count query never reaches the caller. Whatever the clock, the store and
  the document are, and whether or not the query throws, each hook ends with \<^verbatim>\<open>next()\<close>
  and no error, a new Case and every Invoice leave the hook with a non-empty identifier,
  and no creation ends with the failure of the query. When the query throws on a document
  without identifier, the identifier written is the fallback one.
\<close>

theorem count_failure_is_contained:
  "next_arg (caseSchema_pre_save e CaseModel c) = None \<and>
   next_arg (invoiceSchema_pre_save_invoiceNumber e InvoiceModel i) = None \<and>
   next_arg (Invoice_pre_save e InvoiceModel i) = None \<and>
   truthy (caseNumber (doc (caseSchema_pre_save e CaseModel (c\<lparr>isNew := True\<rparr>)))) \<and>
   truthy (invoiceNumber (doc (invoiceSchema_pre_save_invoiceNumber e InvoiceModel i))) \<and>
   Case_create e CaseModel c \<noteq> Inl QueryFailure \<and>
   Invoice_create e InvoiceModel i \<noteq> Inl QueryFailure \<and>
   (query_throws e \<and> \<not> truthy (caseNumber c) \<longrightarrow>
      caseNumber (doc (caseSchema_pre_save e CaseModel (c\<lparr>isNew := True\<rparr>))) =
        Some (''CASE-'' @ Number_toString (year_in_catch e) @ ''-'' @
              slice (- 4) (Number_toString (Date_now e)))) \<and>
   (query_throws e \<and> \<not> truthy (invoiceNumber i) \<longrightarrow>
      invoiceNumber (doc (invoiceSchema_pre_save_invoiceNumber e InvoiceModel i)) =
        Some (''INV-'' @ Number_toString (year_in_catch e) @ ''-0001''))"
proof (intro conjI impI)
  show "next_arg (caseSchema_pre_save e CaseModel c) = None"
    by (rule case_hook_next)
  show "next_arg (invoiceSchema_pre_save_invoiceNumber e InvoiceModel i) = None"
    by (rule invoice_hook_next)
  show "next_arg (Invoice_pre_save e InvoiceModel i) = None"
    by (simp add: Invoice_pre_save_def invoice_hook_next)
  show "truthy (caseNumber (doc (caseSchema_pre_save e CaseModel (c\<lparr>isNew := True\<rparr>))))"
    by (simp add: case_hook_truthy)
  show "truthy (invoiceNumber (doc (invoiceSchema_pre_save_invoiceNumber e InvoiceModel i)))"
    by (rule invoice_hook_truthy)
  show "Case_create e CaseModel c \<noteq> Inl QueryFailure"
    by (simp add: Case_create_def Let_def case_hook_next insertOne_def split: sum.splits)
  show "Invoice_create e InvoiceModel i \<noteq> Inl QueryFailure"
    by (rule Invoice_create_not_QueryFailure)
  show "caseNumber (doc (caseSchema_pre_save e CaseModel (c\<lparr>isNew := True\<rparr>))) =
        Some (''CASE-'' @ Number_toString (year_in_catch e) @ ''-'' @
              slice (- 4) (Number_toString (Date_now e)))"
    if "query_throws e \<and> \<not> truthy (caseNumber c)"
    using that by (simp add: case_hook_fallback)
  show "invoiceNumber (doc (invoiceSchema_pre_save_invoiceNumber e InvoiceModel i)) =
        Some (''INV-'' @ Number_toString (year_in_catch e) @ ''-0001'')"
    if "query_throws e \<and> \<not> truthy (invoiceNumber i)"
    using that by (simp add: invoice_hook_fallback)
qed

theorem count_failure_is_contained_witness:
  "query_throws \<lparr>year_in_try = 2024, year_in_catch = 2024, Date_now = 1718000004071,
                 query_throws = True, write_throws = False\<rparr> \<and>
   next_arg (caseSchema_pre_save
       \<lparr>year_in_try = 2024, year_in_catch = 2024, Date_now = 1718000004071,
        query_throws = True, write_throws = False\<rparr>
       [\<lparr>isNew = False, caseNumber = Some ''CASE-2024-0001''\<rparr>]
       \<lparr>isNew = True, caseNumber = None\<rparr>) = None \<and>
   caseNumber (doc (caseSchema_pre_save
       \<lparr>year_in_try = 2024, year_in_catch = 2024, Date_now = 1718000004071,
        query_throws = True, write_throws = False\<rparr>
       [\<lparr>isNew = False, caseNumber = Some ''CASE-2024-0001''\<rparr>]
       \<lparr>isNew = True, caseNumber = None\<rparr>)) = Some ''CASE-2024-4071'' \<and>
   next_arg (invoiceSchema_pre_save_invoiceNumber
       \<lparr>year_in_try = 2024, year_in_catch = 2024, Date_now = 1718000004071,
        query_throws = True, write_throws = False\<rparr>
       []
       \<lparr>isNew = True, invoiceNumber = None, totalAmount = None,
        items = ([] :: int invoiceItem list), isModified = (\<lambda>p. False)\<rparr>) = None \<and>
   invoiceNumber (doc (invoiceSchema_pre_save_invoiceNumber
       \<lparr>year_in_try = 2024, year_in_catch = 2024, Date_now = 1718000004071,
        query_throws = True, write_throws = False\<rparr>
       []
       \<lparr>isNew = True, invoiceNumber = None, totalAmount = None,
        items = ([] :: int invoiceItem list), isModified = (\<lambda>p. False)\<rparr>))
     = Some ''INV-2024-0001''"
  using count_failure_is_contained
    [where e = "\<lparr>year_in_try = 2024, year_in_catch = 2024, Date_now = 1718000004071,
                 query_throws = True, write_throws = False\<rparr>"
       and CaseModel = "[\<lparr>isNew = False, caseNumber = Some ''CASE-2024-0001''\<rparr>]"
       and c = "\<lparr>isNew = True, caseNumber = None\<rparr>"
       and InvoiceModel = "[]"
       and i = "\<lparr>isNew = True, invoiceNumber = None, totalAmount = None,
                 items = ([] :: int invoiceItem list), isModified = (\<lambda>p. False)\<rparr>"]
  by (simp add: eval_strings)

text \<open>
  C8. For a Case: creations run one after the other in one year, each document written
  before the next creation begins, none bringing an identifier, on a store that answers
  and holds no identifier of that year, all succeed, and the k-th one is given the
  sequence number k, so the numbers are 1, 2, ..., n in creation order. For an Invoice the
  code does otherwise: \<^verbatim>\<open>invoiceNumber\<close> is \<^verbatim>\<open>required: true\<close>, the validation comes before
  the hook that would allocate, and the creation of an invoice that brings no number is
  rejected; a run of such creations stops at the first one and allocates nothing.
\<close>

theorem sequential_creations_by_kind:
  assumes "\<forall>(e, g) \<in> set case_runs. \<not> query_throws e \<and> \<not> write_throws e \<and>
             year_in_try e = y \<and> \<not> truthy (caseNumber g)"
    and "\<forall>d \<in> set CaseModel. \<forall>s. caseNumber d = Some s \<longrightarrow>
           take (length (''CASE-'' @ Number_toString y @ ''-'')) s \<noteq>
             ''CASE-'' @ Number_toString y @ ''-''"
  shows
    "(\<exists>CaseModel'. Case_create_all CaseModel case_runs =
        Inr (CaseModel',
             map (\<lambda>k. Some (''CASE-'' @ Number_toString y @ ''-'' @
                             padStart 4 ''0'' (Number_toString (int k))))
                 [1 ..< Suc (length case_runs)])) \<and>
     Invoice_create e InvoiceModel (i\<lparr>invoiceNumber := None\<rparr>) = Inl ValidationError \<and>
     Invoice_create_all InvoiceModel ((e, i\<lparr>invoiceNumber := None\<rparr>) # invoice_runs) =
       Inl ValidationError"
proof (intro conjI)
  have "numbered_up_to caseNumber (''CASE-'' @ Number_toString y @ ''-'') CaseModel 0"
    using assms(2) by (rule numbered_up_to_start)
  from Case_create_all_numbered[OF assms(1) this]
  show "\<exists>CaseModel'. Case_create_all CaseModel case_runs =
        Inr (CaseModel',
             map (\<lambda>k. Some (''CASE-'' @ Number_toString y @ ''-'' @
                             padStart 4 ''0'' (Number_toString (int k))))
                 [1 ..< Suc (length case_runs)])"
    by (simp add: Number_toString_nat)
next
  show r: "Invoice_create e InvoiceModel (i\<lparr>invoiceNumber := None\<rparr>) = Inl ValidationError"
    by (simp add: Invoice_create_rejects truthy_def)
  show "Invoice_create_all InvoiceModel ((e, i\<lparr>invoiceNumber := None\<rparr>) # invoice_runs) =
       Inl ValidationError"
    by (simp add: r)
qed

theorem sequential_creations_by_kind_witness:
  "(\<exists>CaseModel'. Case_create_all
       [\<lparr>isNew = False, caseNumber = Some ''CASE-2023-0001''\<rparr>,
        \<lparr>isNew = False, caseNumber = None\<rparr>]
       [(\<lparr>year_in_try = 2024, year_in_catch = 2024, Date_now = 1718000000000,
          query_throws = False, write_throws = False\<rparr>, \<lparr>isNew = True, caseNumber = None\<rparr>),
        (\<lparr>year_in_try = 2024, year_in_catch = 2024, Date_now = 1718000000250,
          query_throws = False, write_throws = False\<rparr>, \<lparr>isNew = True, caseNumber = None\<rparr>),
        (\<lparr>year_in_try = 2024, year_in_catch = 2024, Date_now = 1718000000500,
          query_throws = False, write_throws = False\<rparr>, \<lparr>isNew = True, caseNumber = Some []\<rparr>)]
     = Inr (CaseModel',
            [Some ''CASE-2024-0001'', Some ''CASE-2024-0002'', Some ''CASE-2024-0003''])) \<and>
   Invoice_create_all []
       [(\<lparr>year_in_try = 2024, year_in_catch = 2024, Date_now = 1718000000000,
          query_throws = False, write_throws = False\<rparr>,
         \<lparr>isNew = True, invoiceNumber = None, totalAmount = None,
          items = [\<lparr>quantity = 2, rate = 150, amount = 300, item_isModified = (\<lambda>p. True)\<rparr>],
          isModified = (\<lambda>p. p = ''items'')\<rparr>),
        (\<lparr>year_in_try = 2024, year_in_catch = 2024, Date_now = 1718000000250,
          query_throws = False, write_throws = False\<rparr>,
         \<lparr>isNew = True, invoiceNumber = None, totalAmount = None,
          items = [\<lparr>quantity = 1, rate = (75::int), amount = 75, item_isModified = (\<lambda>p. True)\<rparr>],
          isModified = (\<lambda>p. p = ''items'')\<rparr>)]
     = Inl ValidationError"
  using sequential_creations_by_kind
    [where y = 2024
       and CaseModel = "[\<lparr>isNew = False, caseNumber = Some ''CASE-2023-0001''\<rparr>,
                         \<lparr>isNew = False, caseNumber = None\<rparr>]"
       and case_runs =
         "[(\<lparr>year_in_try = 2024, year_in_catch = 2024, Date_now = 1718000000000,
             query_throws = False, write_throws = False\<rparr>, \<lparr>isNew = True, caseNumber = None\<rparr>),
           (\<lparr>year_in_try = 2024, year_in_catch = 2024, Date_now = 1718000000250,
             query_throws = False, write_throws = False\<rparr>, \<lparr>isNew = True, caseNumber = None\<rparr>),
           (\<lparr>year_in_try = 2024, year_in_catch = 2024, Date_now = 1718000000500,
             query_throws = False, write_throws = False\<rparr>,
            \<lparr>isNew = True, caseNumber = Some []\<rparr>)]"
       and InvoiceModel = "[]"
       and e = "\<lparr>year_in_try = 2024, year_in_catch = 2024, Date_now = 1718000000000,
                 query_throws = False, write_throws = False\<rparr>"
       and i = "\<lparr>isNew = True, invoiceNumber = None, totalAmount = None,
          items = [\<lparr>quantity = 2, rate = 150, amount = 300, item_isModified = (\<lambda>p. True)\<rparr>],
          isModified = (\<lambda>p. p = ''items'')\<rparr>"
       and invoice_runs =
         "[(\<lparr>year_in_try = 2024, year_in_catch = 2024, Date_now = 1718000000250,
             query_throws = False, write_throws = False\<rparr>,
            \<lparr>isNew = True, invoiceNumber = None, totalAmount = None,
             items = [\<lparr>quantity = 1, rate = (75::int), amount = 75,
                       item_isModified = (\<lambda>p. True)\<rparr>],
             isModified = (\<lambda>p. p = ''items'')\<rparr>)]"]
  by (simp add: eval_strings del: Invoice_create_all.simps)

text \<open>
  C9. After the hooks of a save have run on an Invoice whose \<^verbatim>\<open>items\<close> path is modified,
  \<^verbatim>\<open>totalAmount\<close> is the sum of the \<^verbatim>\<open>amount\<close> of its items as the save leaves them, added
  from the left starting at 0, so 0 for no items; where the addition of the Number type
  is associative with 0 neutral, this is the sum of the list. If \<^verbatim>\<open>items\<close> is not
  modified, \<^verbatim>\<open>totalAmount\<close> is as it was.
\<close>

theorem invoice_total_is_sum:
  "(isModified i ''items'' \<longrightarrow>
      totalAmount (doc (Invoice_pre_save e InvoiceModel i)) =
        Some (foldl (+) 0 (map amount (items (doc (Invoice_pre_save e InvoiceModel i)))))) \<and>
   (\<not> isModified i ''items'' \<longrightarrow>
      totalAmount (doc (Invoice_pre_save e InvoiceModel i)) = totalAmount i) \<and>
   (isModified j ''items'' \<longrightarrow>
      totalAmount (doc (Invoice_pre_save e' InvoiceModel' j)) =
        Some (sum_list (map amount (items (doc (Invoice_pre_save e' InvoiceModel' j))))))"
  for i :: "'n::{plus,zero,times} invoice" and j :: "'m::{monoid_add,times} invoice"
  by (simp add: Invoice_pre_save_def invoice_hook_keeps_rest
      invoiceSchema_pre_save_totalAmount_def reduce_amounts foldl_plus_sum_list)

theorem invoice_total_is_sum_witness:
  "totalAmount (doc (Invoice_pre_save
       \<lparr>year_in_try = 2024, year_in_catch = 2024, Date_now = 1718000000000,
        query_throws = False, write_throws = False\<rparr>
       []
       \<lparr>isNew = True, invoiceNumber = None, totalAmount = None,
        items = [\<lparr>quantity = 2, rate = 150, amount = 0, item_isModified = (\<lambda>p. True)\<rparr>,
                 \<lparr>quantity = 1, rate = 75, amount = 80, item_isModified = (\<lambda>p. False)\<rparr>],
        isModified = (\<lambda>p. p = ''items'')\<rparr>)) = Some (380::int) \<and>
   totalAmount (doc (Invoice_pre_save
       \<lparr>year_in_try = 2024, year_in_catch = 2024, Date_now = 1718000000000,
        query_throws = False, write_throws = False\<rparr>
       []
       \<lparr>isNew = False, invoiceNumber = Some ''INV-2024-0001'', totalAmount = Some 5,
        items = [\<lparr>quantity = 2, rate = 150, amount = 300, item_isModified = (\<lambda>p. False)\<rparr>],
        isModified = (\<lambda>p. p = ''status'')\<rparr>)) = Some (5::int)"
proof -
  let ?e = "\<lparr>year_in_try = 2024, year_in_catch = 2024, Date_now = 1718000000000,
             query_throws = False, write_throws = False\<rparr>"
  let ?i = "\<lparr>isNew = True, invoiceNumber = None, totalAmount = None,
        items = [\<lparr>quantity = 2, rate = 150, amount = 0, item_isModified = (\<lambda>p. True)\<rparr>,
                 \<lparr>quantity = 1, rate = 75, amount = 80, item_isModified = (\<lambda>p. False)\<rparr>],
        isModified = (\<lambda>p. p = ''items'')\<rparr> :: int invoice"
  let ?j = "\<lparr>isNew = False, invoiceNumber = Some ''INV-2024-0001'', totalAmount = Some 5,
        items = [\<lparr>quantity = 2, rate = 150, amount = 300, item_isModified = (\<lambda>p. False)\<rparr>],
        isModified = (\<lambda>p. p = ''status'')\<rparr> :: int invoice"
  have items_after: "items (doc (Invoice_pre_save ?e [] ?i)) =
      [\<lparr>quantity = 2, rate = 150, amount = 300, item_isModified = (\<lambda>p. True)\<rparr>,
       \<lparr>quantity = 1, rate = 75, amount = 80, item_isModified = (\<lambda>p. False)\<rparr>]"
    by (simp add: Invoice_pre_save_def invoice_hook_keeps_rest
        invoiceSchema_pre_save_totalAmount_def invoiceItemSchema_pre_save_def)
  show ?thesis
    using items_after
      invoice_total_is_sum [where i = ?i and j = ?i and e = ?e and InvoiceModel = "[]"]
      invoice_total_is_sum [where i = ?j and j = ?i and e = ?e and InvoiceModel = "[]"]
    by simp
qed

text \<open>
  C10. The identifier the Case fallback writes begins with \<^verbatim>\<open>CASE-{year}-\<close>, so the
  pattern of the count query of that year matches it: a stored document carrying it adds
  one to the count of every later query for that year, and the next happy-path
  allocation is numbered one higher than it would be without that document.
\<close>

theorem case_fallback_is_counted:
  assumes "query_throws e" and "isNew c" and "\<not> truthy (caseNumber c)"
    and "caseNumber d = caseNumber (doc (caseSchema_pre_save e CaseModel c))"
    and "year_in_try e' = year_in_catch e" and "isNew c'" and "\<not> truthy (caseNumber c')"
    and "countDocuments e' caseNumber (M1 @ M2)
           (''^CASE-'' @ Number_toString (year_in_catch e) @ ''-'') = Inr n"
  shows
    "(\<exists>s. caseNumber d = Some s \<and>
          RegExp_test (''^CASE-'' @ Number_toString (year_in_catch e) @ ''-'') s) \<and>
     countDocuments e' caseNumber (M1 @ d # M2)
       (''^CASE-'' @ Number_toString (year_in_catch e) @ ''-'') = Inr (Suc n) \<and>
     caseNumber (doc (caseSchema_pre_save e' (M1 @ M2) c')) =
       Some (''CASE-'' @ Number_toString (year_in_catch e) @ ''-'' @
             padStart 4 ''0'' (Number_toString (int n + 1))) \<and>
     caseNumber (doc (caseSchema_pre_save e' (M1 @ d # M2) c')) =
       Some (''CASE-'' @ Number_toString (year_in_catch e) @ ''-'' @
             padStart 4 ''0'' (Number_toString (int n + 2)))"
proof -
  let ?pre = "''CASE-'' @ Number_toString (year_in_catch e) @ ''-''"
  let ?t = "slice (- 4) (Number_toString (Date_now e))"
  have d: "caseNumber d = Some (?pre @ ?t)"
    using assms(1,2,3,4) by (simp add: case_hook_fallback)
  have q: "\<not> query_throws e'"
    using assms(8) by (auto simp: countDocuments_def split: if_splits)
  have m: "RegExp_test (CHR ''^'' # ?pre) (?pre @ ?t)"
    unfolding RegExp_test_anchored by (rule matches_here_append)
  have n1: "countDocuments e' caseNumber (M1 @ M2) (CHR ''^'' # ?pre) = Inr n"
    using assms(8) by simp
  have n2: "countDocuments e' caseNumber (M1 @ d # M2) (CHR ''^'' # ?pre) = Inr (Suc n)"
    using n1 d by (rule countDocuments_insert)
  have a: "caseNumber (doc (caseSchema_pre_save e' (M1 @ M2) c')) =
       Some (?pre @ padStart 4 ''0'' (Number_toString (int n + 1)))"
    using case_hook_happy[of e' c' "M1 @ M2" n] q assms(5,6,7) n1 by simp
  have b: "caseNumber (doc (caseSchema_pre_save e' (M1 @ d # M2) c')) =
       Some (?pre @ padStart 4 ''0'' (Number_toString (int n + 2)))"
    using case_hook_happy[of e' c' "M1 @ d # M2" "Suc n"] q assms(5,6,7) n2
    by (simp add: add.commute)
  show ?thesis
    using d m n2 a b by simp
qed

theorem case_fallback_is_counted_witness:
  "caseNumber (doc (caseSchema_pre_save
       \<lparr>year_in_try = 2024, year_in_catch = 2024, Date_now = 1718000004071,
        query_throws = True, write_throws = False\<rparr>
       [\<lparr>isNew = False, caseNumber = Some ''CASE-2024-0001''\<rparr>]
       \<lparr>isNew = True, caseNumber = None\<rparr>)) = Some ''CASE-2024-4071'' \<and>
   RegExp_test ''^CASE-2024-'' ''CASE-2024-4071'' \<and>
   caseNumber (doc (caseSchema_pre_save
       \<lparr>year_in_try = 2024, year_in_catch = 2024, Date_now = 1718000009000,
        query_throws = False, write_throws = False\<rparr>
       [\<lparr>isNew = False, caseNumber = Some ''CASE-2024-0001''\<rparr>]
       \<lparr>isNew = True, caseNumber = None\<rparr>)) = Some ''CASE-2024-0002'' \<and>
   caseNumber (doc (caseSchema_pre_save
       \<lparr>year_in_try = 2024, year_in_catch = 2024, Date_now = 1718000009000,
        query_throws = False, write_throws = False\<rparr>
       [\<lparr>isNew = False, caseNumber = Some ''CASE-2024-0001''\<rparr>,
        \<lparr>isNew = False, caseNumber = Some ''CASE-2024-4071''\<rparr>]
       \<lparr>isNew = True, caseNumber = None\<rparr>)) = Some ''CASE-2024-0003''"
proof -
  let ?e = "\<lparr>year_in_try = 2024, year_in_catch = 2024, Date_now = 1718000004071,
             query_throws = True, write_throws = False\<rparr>"
  let ?e' = "\<lparr>year_in_try = 2024, year_in_catch = 2024, Date_now = 1718000009000,
              query_throws = False, write_throws = False\<rparr>"
  let ?M = "[\<lparr>isNew = False, caseNumber = Some ''CASE-2024-0001''\<rparr>]"
  let ?c = "\<lparr>isNew = True, caseNumber = None\<rparr>"
  let ?d = "\<lparr>isNew = False, caseNumber = Some ''CASE-2024-4071''\<rparr>"
  have f: "caseNumber (doc (caseSchema_pre_save ?e ?M ?c)) = Some ''CASE-2024-4071''"
    using case_hook_fallback[where e = ?e and CaseModel = ?M and c = ?c]
    by (simp add: eval_strings)
  have n: "countDocuments ?e' caseNumber (?M @ [])
             (''^CASE-'' @ Number_toString (year_in_catch ?e) @ ''-'') = Inr 1"
    by (simp add: countDocuments_def eval_strings)
  show ?thesis
    using f n
      case_fallback_is_counted
        [where e = ?e and c = ?c and CaseModel = ?M and d = ?d and e' = ?e' and c' = ?c
           and ?M1.0 = ?M and ?M2.0 = "[]" and n = 1]
    by (simp add: eval_strings)
qed

end
